theory Spec2Isabelle
  imports Complex_Main
begin

section \<open>Embedding pipeline of controllers/chatController.js\<close>

text \<open>
  The controller is embedded function by function. JavaScript numbers are read as
  real numbers (no rounding, no NaN), except that cosineSimilarity is also given with
  the rounding of double precision, where its range depends on it. Strings are lists of
  characters, \<open>null\<close> and \<open>undefined\<close> are \<open>None\<close>. Every \<open>await\<close> on a collaborator (the Ollama
  endpoint, the PostgreSQL pool) appends an event to the trace of the world, and what the
  collaborator answers is read from an environment indexed by the number of calls made
  so far, so that any pattern of failures over time is covered.
\<close>

subsection \<open>Strings and vectors\<close>

type_synonym vector = "real list"

definition DEFAULT_MODEL :: string where
  "DEFAULT_MODEL = ''qwen2.5:0.5b''"

definition EMBEDDING_MODEL :: string where
  "EMBEDDING_MODEL = ''nomic-embed-text:latest''"

text \<open>White space removed by \<open>String.prototype.trim\<close>, for code units below 256.\<close>

definition is_ws :: "char \<Rightarrow> bool" where
  "is_ws c = (c \<in> {CHR 0x09, CHR 0x0A, CHR 0x0B, CHR 0x0C, CHR 0x0D, CHR 0x20, CHR 0xA0})"

definition trim :: "string \<Rightarrow> string" where
  "trim s = rev (dropWhile is_ws (rev (dropWhile is_ws s)))"

text \<open>\<open>!text || text.trim().length < 3\<close> for a string: empty, or shorter than 3 once trimmed.\<close>

definition too_short :: "string \<Rightarrow> bool" where
  "too_short text = (text = [] \<or> length (trim text) < 3)"

subsection \<open>cosineSimilarity\<close>

text \<open>
  The body of the \<open>for\<close> loop, run for \<open>i = 0, ..., vecA.length - 1\<close> on the three
  accumulators \<open>(dotProduct, normA, normB)\<close>. It is only reached with two vectors of
  the same length, so both reads are in range.
\<close>

definition cos_step :: "vector \<Rightarrow> vector \<Rightarrow> nat \<Rightarrow> real \<times> real \<times> real \<Rightarrow> real \<times> real \<times> real" where
  "cos_step vecA vecB i acc =
     (case acc of (dotProduct, normA, normB) \<Rightarrow>
        (dotProduct + vecA ! i * vecB ! i, normA + vecA ! i * vecA ! i, normB + vecB ! i * vecB ! i))"

definition cos_loop :: "vector \<Rightarrow> vector \<Rightarrow> real \<times> real \<times> real" where
  "cos_loop vecA vecB = fold (cos_step vecA vecB) [0..<length vecA] (0, 0, 0)"

definition cosineSimilarity :: "vector option \<Rightarrow> vector option \<Rightarrow> real" where
  "cosineSimilarity a b =
     (case a of None \<Rightarrow> 0
      | Some vecA \<Rightarrow>
         (case b of None \<Rightarrow> 0
          | Some vecB \<Rightarrow>
             if length vecA \<noteq> length vecB then 0
             else (case cos_loop vecA vecB of (dotProduct, sumA, sumB) \<Rightarrow>
                     (let normA = sqrt sumA; normB = sqrt sumB
                      in if normA = 0 \<or> normB = 0 then 0
                         else dotProduct / (normA * normB)))))"

text \<open>The magnitude of a vector, as the specification speaks of it.\<close>

definition magnitude :: "vector \<Rightarrow> real" where
  "magnitude v = sqrt (\<Sum>x\<leftarrow>v. x * x)"

subsection \<open>cosineSimilarity in double precision\<close>

text \<open>
  The same function with every arithmetic operation followed by a rounding \<open>rnd\<close>, as
  the operations on JavaScript numbers are: each product, each sum, each square root
  and each quotient is the exact result rounded. With \<open>rnd\<close> the identity this is
  \<open>cosineSimilarity\<close> above; with \<open>round_double\<close> it is the arithmetic of IEEE 754
  binary64 on results in the normal range (no overflow, no subnormal results).
  \<open>Math.sqrt\<close> is taken as correctly rounded, as engines implement it.
\<close>

text \<open>
  \<open>expo x\<close> is the exponent of the binade of \<open>x\<close>: \<open>2 ^ expo x \<le> |x| < 2 ^ (expo x + 1)\<close>.
  \<open>round_even\<close> rounds to the nearest integer, ties to the even one. \<open>round_double\<close>
  rounds to the nearest number with a significand of 53 bits.
\<close>

definition expo :: "real \<Rightarrow> int" where
  "expo x = \<lfloor>log 2 \<bar>x\<bar>\<rfloor>"

definition round_even :: "real \<Rightarrow> int" where
  "round_even y =
     (let f = \<lfloor>y\<rfloor>
      in if y - of_int f < 1 / 2 then f
         else if y - of_int f > 1 / 2 then f + 1
         else if even f then f else f + 1)"

definition round_double :: "real \<Rightarrow> real" where
  "round_double x =
     (if x = 0 then 0
      else of_int (round_even (x / 2 powr of_int (expo x - 52))) * 2 powr of_int (expo x - 52))"

definition cos_step_fp :: "(real \<Rightarrow> real) \<Rightarrow> vector \<Rightarrow> vector \<Rightarrow> nat \<Rightarrow> real \<times> real \<times> real \<Rightarrow> real \<times> real \<times> real" where
  "cos_step_fp rnd vecA vecB i acc =
     (case acc of (dotProduct, normA, normB) \<Rightarrow>
        (rnd (dotProduct + rnd (vecA ! i * vecB ! i)),
         rnd (normA + rnd (vecA ! i * vecA ! i)),
         rnd (normB + rnd (vecB ! i * vecB ! i))))"

definition cos_loop_fp :: "(real \<Rightarrow> real) \<Rightarrow> vector \<Rightarrow> vector \<Rightarrow> real \<times> real \<times> real" where
  "cos_loop_fp rnd vecA vecB = fold (cos_step_fp rnd vecA vecB) [0..<length vecA] (0, 0, 0)"

definition cosineSimilarity_fp :: "(real \<Rightarrow> real) \<Rightarrow> vector option \<Rightarrow> vector option \<Rightarrow> real" where
  "cosineSimilarity_fp rnd a b =
     (case a of None \<Rightarrow> 0
      | Some vecA \<Rightarrow>
         (case b of None \<Rightarrow> 0
          | Some vecB \<Rightarrow>
             if length vecA \<noteq> length vecB then 0
             else (case cos_loop_fp rnd vecA vecB of (dotProduct, sumA, sumB) \<Rightarrow>
                     (let normA = rnd (sqrt sumA); normB = rnd (sqrt sumB)
                      in if normA = 0 \<or> normB = 0 then 0
                         else rnd (dotProduct / rnd (normA * normB))))))"

text \<open>The doubles 1.7320508075688772, 2.9999999999999996 and 1.0000000000000002.\<close>

definition double_sqrt3 :: real where
  "double_sqrt3 = 7800463371553962 / 2 ^ 52"

definition double_sqrt3_squared :: real where
  "double_sqrt3_squared = 6755399441055743 / 2 ^ 51"

definition double_above_one :: real where
  "double_above_one = 4503599627370497 / 2 ^ 52"

subsection \<open>The tables of config/db.js\<close>

text \<open>
  Only the columns the pipeline reads or writes. Every \<open>id\<close> is a \<open>SERIAL\<close>
  (a PostgreSQL \<open>INTEGER\<close>), foreign keys are nullable as declared, timestamps are
  points on a discrete clock.
\<close>

record conversation_row =
  conv_id :: nat
  conv_user_id :: "nat option"
  conv_title :: "string option"

record message_row =
  msg_id :: nat
  msg_conversation_id :: "nat option"
  msg_sender :: string
  msg_content :: string
  msg_created_at :: nat

text \<open>
  The \<open>TEXT\<close> column \<open>embedding_vector\<close>, by what \<open>JSON.parse\<close> makes of it:
  the text \<open>JSON.stringify\<close> wrote for a vector, or a text it rejects.
\<close>

datatype vector_text = Stringified vector | Garbled string

record embedding_row =
  emb_id :: nat
  emb_message_id :: "nat option"
  emb_embedding_vector :: vector_text
  emb_model_name :: "string option"
  emb_created_at :: nat
  emb_updated_at :: nat

datatype statement =
    UpsertEmbedding nat
  | SelectEmbedded nat
  | SelectKeyword nat string
  | SelectUnembedded nat int

datatype event = Fetch string | Query statement

record world =
  conversations_tbl :: "conversation_row list"
  messages_tbl :: "message_row list"
  embeddings_tbl :: "embedding_row list"
  embeddings_id_seq :: nat
  trace :: "event list"

text \<open>
  What the collaborators answer at the \<open>n\<close>-th call: the HTTP exchange with Ollama
  (\<open>Inl\<close> when \<open>fetch\<close> rejects: network error, timeout), whether the pool rejects
  a query, the value of \<open>NOW()\<close>, and PostgreSQL's \<open>ILIKE\<close> on a content and a
  pattern.
\<close>

record fetch_response =
  ok :: bool
  status :: nat
  json :: "string + vector option"

record env =
  fetch :: "nat \<Rightarrow> string \<Rightarrow> string + fetch_response"
  pool_rejects :: "nat \<Rightarrow> string option"
  NOW :: "nat \<Rightarrow> nat"
  ILIKE :: "string \<Rightarrow> string \<Rightarrow> bool"

datatype error =
    FetchRejected string
  | OllamaApiError nat
  | JsonRejected string
  | NoEmbeddingReturned
  | QueryRejected string
  | UniqueViolation
  | ForeignKeyViolation
  | LimitOutOfRange
  | SyntaxError string

text \<open>\<open>res.json(body)\<close>, or \<open>res.status(code).json({error: text})\<close>.\<close>

datatype 'a result = Json 'a | ErrorStatus nat string

definition JSON_stringify :: "vector \<Rightarrow> vector_text" where
  "JSON_stringify v = Stringified v"

definition JSON_parse :: "vector_text \<Rightarrow> error + vector" where
  "JSON_parse t = (case t of Stringified v \<Rightarrow> Inr v | Garbled s \<Rightarrow> Inl (SyntaxError s))"

text \<open>\<open>await pool.query(...)\<close>: the call is logged, and the pool may reject it.\<close>

definition pool_query :: "env \<Rightarrow> statement \<Rightarrow> world \<Rightarrow> string option \<times> world" where
  "pool_query env stmt w = (pool_rejects env (length (trace w)), w\<lparr>trace := trace w @ [Query stmt]\<rparr>)"

subsection \<open>generateEmbedding\<close>

definition generateEmbedding_try :: "env \<Rightarrow> string option \<Rightarrow> world \<Rightarrow> (error + vector option) \<times> world" where
  "generateEmbedding_try env text w =
     (case text of None \<Rightarrow> (Inr None, w)
      | Some prompt \<Rightarrow>
          if too_short prompt then (Inr None, w)
          else (let w1 = w\<lparr>trace := trace w @ [Fetch prompt]\<rparr> in
                case fetch env (length (trace w)) prompt of
                  Inl msg \<Rightarrow> (Inl (FetchRejected msg), w1)
                | Inr response \<Rightarrow>
                    if \<not> ok response then (Inl (OllamaApiError (status response)), w1)
                    else (case json response of
                            Inl msg \<Rightarrow> (Inl (JsonRejected msg), w1)
                          | Inr data_embedding \<Rightarrow>
                              (case data_embedding of
                                 None \<Rightarrow> (Inl NoEmbeddingReturned, w1)
                               | Some v \<Rightarrow> (Inr (Some v), w1)))))"

text \<open>The \<open>catch\<close> of generateEmbedding: any failure is logged and becomes \<open>null\<close>.\<close>

definition generateEmbedding :: "env \<Rightarrow> string option \<Rightarrow> world \<Rightarrow> vector option \<times> world" where
  "generateEmbedding env text w =
     (case generateEmbedding_try env text w of
        (Inl e, w1) \<Rightarrow> (None, w1)
      | (Inr r, w1) \<Rightarrow> (r, w1))"

subsection \<open>storeEmbedding\<close>

text \<open>The \<open>DO UPDATE SET\<close> clause of the upsert, applied to the conflicting row.\<close>

definition do_update :: "vector_text \<Rightarrow> string \<Rightarrow> nat \<Rightarrow> embedding_row \<Rightarrow> embedding_row" where
  "do_update vec model now r =
     r\<lparr>emb_embedding_vector := vec, emb_model_name := Some model, emb_updated_at := now\<rparr>"

text \<open>The row of the \<open>VALUES\<close> clause, with the id the sequence gave.\<close>

definition inserted_row :: "nat \<Rightarrow> nat \<Rightarrow> vector_text \<Rightarrow> string \<Rightarrow> nat \<Rightarrow> embedding_row" where
  "inserted_row newid messageId vec model now =
     \<lparr>emb_id = newid, emb_message_id = Some messageId, emb_embedding_vector = vec,
      emb_model_name = Some model, emb_created_at = now, emb_updated_at = now\<rparr>"

text \<open>
  \<open>INSERT INTO embeddings ... ON CONFLICT (message_id) DO UPDATE ...\<close>. The default of
  \<open>id\<close> takes the next value of the sequence, also when the row is then updated
  instead. Without a conflict on \<open>message_id\<close> the new row must pass the primary key
  and the foreign key to \<open>messages\<close>.
\<close>

definition query_upsert :: "env \<Rightarrow> nat \<Rightarrow> vector_text \<Rightarrow> string \<Rightarrow> world \<Rightarrow> (error + unit) \<times> world" where
  "query_upsert env messageId vec model w =
     (let now = NOW env (length (trace w)) in
      case pool_query env (UpsertEmbedding messageId) w of
        (Some msg, w1) \<Rightarrow> (Inl (QueryRejected msg), w1)
      | (None, w1) \<Rightarrow>
          (let newid = embeddings_id_seq w1;
               w2 = w1\<lparr>embeddings_id_seq := newid + 1\<rparr>
           in if \<exists>r\<in>set (embeddings_tbl w2). emb_message_id r = Some messageId
              then (Inr (), w2\<lparr>embeddings_tbl :=
                      map (\<lambda>r. if emb_message_id r = Some messageId then do_update vec model now r else r)
                          (embeddings_tbl w2)\<rparr>)
              else if newid \<in> emb_id ` set (embeddings_tbl w2) then (Inl UniqueViolation, w2)
              else if messageId \<notin> msg_id ` set (messages_tbl w2) then (Inl ForeignKeyViolation, w2)
              else (Inr (), w2\<lparr>embeddings_tbl := embeddings_tbl w2 @
                      [inserted_row newid messageId vec model now]\<rparr>)))"

definition storeEmbedding_try :: "env \<Rightarrow> nat \<Rightarrow> vector \<Rightarrow> world \<Rightarrow> (error + bool) \<times> world" where
  "storeEmbedding_try env messageId embedding w =
     (let embeddingStr = JSON_stringify embedding in
      case query_upsert env messageId embeddingStr EMBEDDING_MODEL w of
        (Inl e, w1) \<Rightarrow> (Inl e, w1)
      | (Inr u, w1) \<Rightarrow> (Inr True, w1))"

definition storeEmbedding :: "env \<Rightarrow> nat \<Rightarrow> vector \<Rightarrow> world \<Rightarrow> bool \<times> world" where
  "storeEmbedding env messageId embedding w =
     (case storeEmbedding_try env messageId embedding w of
        (Inl e, w1) \<Rightarrow> (False, w1)
      | (Inr b, w1) \<Rightarrow> (b, w1))"

subsection \<open>generateAndStoreEmbedding\<close>

definition generateAndStoreEmbedding_try :: "env \<Rightarrow> nat \<Rightarrow> string option \<Rightarrow> world \<Rightarrow> (error + unit) \<times> world" where
  "generateAndStoreEmbedding_try env messageId content w =
     (case content of None \<Rightarrow> (Inr (), w)
      | Some c \<Rightarrow>
          if too_short c then (Inr (), w)
          else (case generateEmbedding env content w of
                  (None, w1) \<Rightarrow> (Inr (), w1)
                | (Some embedding, w1) \<Rightarrow>
                    (case storeEmbedding env messageId embedding w1 of
                       (stored, w2) \<Rightarrow> (Inr (), w2))))"

text \<open>
  The \<open>catch\<close> of generateAndStoreEmbedding logs the error and falls off the end of the
  function: the promise resolves. \<open>Inl\<close> is what a caller's own \<open>catch\<close> would see.
\<close>

definition generateAndStoreEmbedding :: "env \<Rightarrow> nat \<Rightarrow> string option \<Rightarrow> world \<Rightarrow> (error + unit) \<times> world" where
  "generateAndStoreEmbedding env messageId content w =
     (case generateAndStoreEmbedding_try env messageId content w of
        (Inl e, w1) \<Rightarrow> (Inr (), w1)
      | (Inr u, w1) \<Rightarrow> (Inr u, w1))"

subsection \<open>The UNIQUE constraint on message_id\<close>

text \<open>The embedding rows of a message, and the constraint that no two rows share a non-null message id.\<close>

definition rows_for :: "nat \<Rightarrow> embedding_row list \<Rightarrow> embedding_row list" where
  "rows_for messageId tbl = filter (\<lambda>r. emb_message_id r = Some messageId) tbl"

definition unique_message_id :: "embedding_row list \<Rightarrow> bool" where
  "unique_message_id tbl = distinct (filter (\<lambda>x. x \<noteq> None) (map emb_message_id tbl))"

subsection \<open>Objects keyed by an id\<close>

text \<open>
  \<open>const conversations = {}\<close> is only ever indexed by a conversation id, a positive
  \<open>INTEGER\<close>, so each property key is an array index. JavaScript enumerates such keys
  in ascending numeric order whatever the order of creation, and \<open>Object.values\<close>
  follows that order. The object is therefore the list of its entries by ascending key.
\<close>

type_synonym 'v js_object = "(nat \<times> 'v) list"

fun obj_get :: "'v js_object \<Rightarrow> nat \<Rightarrow> 'v option" where
  "obj_get [] k = None"
| "obj_get ((k', v) # rest) k = (if k' = k then Some v else obj_get rest k)"

fun obj_set :: "'v js_object \<Rightarrow> nat \<Rightarrow> 'v \<Rightarrow> 'v js_object" where
  "obj_set [] k v = [(k, v)]"
| "obj_set ((k', v') # rest) k v =
     (if k = k' then (k, v) # rest
      else if k < k' then (k, v) # (k', v') # rest
      else (k', v') # obj_set rest k v)"

definition Object_values :: "'v js_object \<Rightarrow> 'v list" where
  "Object_values obj = map snd obj"

subsection \<open>Search rows, hits and groups\<close>

text \<open>A row of the \<open>SELECT\<close> of searchMessages.\<close>

record embedded_row =
  row_id :: nat
  row_conversation_id :: nat
  row_role :: string
  row_content :: string
  row_created_at :: nat
  row_conversation_title :: "string option"
  row_embedding_vector :: vector_text

text \<open>
  An element of \<open>messagesWithScores\<close>; a row of the keyword \<open>SELECT\<close> has the same
  fields under their column names.
\<close>

record scored_message =
  sm_id :: nat
  sm_conversationId :: nat
  sm_role :: string
  sm_content :: string
  sm_createdAt :: nat
  sm_conversationTitle :: "string option"
  sm_similarity :: real

record hit =
  hit_id :: nat
  hit_conversationId :: nat
  hit_role :: string
  hit_content :: string
  hit_createdAt :: nat
  hit_similarity :: real

record conversation_group =
  grp_conversationId :: nat
  grp_conversationTitle :: "string option"
  grp_messages :: "hit list"

datatype search_type = semantic | keyword

record search_body =
  body_conversations :: "conversation_group list"
  totalMessages :: nat
  searchType :: search_type
  embeddingModel :: "string option"

record search_request =
  userId :: nat
  query :: "string option"

subsection \<open>Grouping by conversation\<close>

definition new_group :: "scored_message \<Rightarrow> conversation_group" where
  "new_group msg =
     \<lparr>grp_conversationId = sm_conversationId msg,
      grp_conversationTitle = sm_conversationTitle msg,
      grp_messages = []\<rparr>"

definition to_hit :: "scored_message \<Rightarrow> hit" where
  "to_hit msg =
     \<lparr>hit_id = sm_id msg, hit_conversationId = sm_conversationId msg, hit_role = sm_role msg,
      hit_content = sm_content msg, hit_createdAt = sm_createdAt msg,
      hit_similarity = sm_similarity msg\<rparr>"

text \<open>
  The callback of \<open>forEach\<close>: create the group if the key is not there yet, then push
  the hit onto the group found under the key (which is there by then).
\<close>

definition group_step :: "conversation_group js_object \<Rightarrow> scored_message \<Rightarrow> conversation_group js_object" where
  "group_step conversations msg =
     (let conversations1 =
            (if obj_get conversations (sm_conversationId msg) = None
             then obj_set conversations (sm_conversationId msg) (new_group msg)
             else conversations)
      in case obj_get conversations1 (sm_conversationId msg) of
           None \<Rightarrow> conversations1
         | Some g \<Rightarrow>
             obj_set conversations1 (sm_conversationId msg)
               (g\<lparr>grp_messages := grp_messages g @ [to_hit msg]\<rparr>))"

text \<open>The group a key holds after one callback, given what the key held before.\<close>

definition pushed :: "conversation_group option \<Rightarrow> scored_message \<Rightarrow> conversation_group" where
  "pushed found msg =
     (case found of
        None \<Rightarrow> (new_group msg)\<lparr>grp_messages := [to_hit msg]\<rparr>
      | Some g \<Rightarrow> g\<lparr>grp_messages := grp_messages g @ [to_hit msg]\<rparr>)"

definition groupByConversation :: "scored_message list \<Rightarrow> conversation_group js_object" where
  "groupByConversation msgs = foldl group_step [] msgs"

subsection \<open>performKeywordSearch\<close>

text \<open>
  The keyword \<open>SELECT\<close>: messages of the user's conversations whose content matches,
  newest first, at most 50, each with the constant similarity 0.5.
\<close>

definition select_keyword :: "env \<Rightarrow> world \<Rightarrow> nat \<Rightarrow> string \<Rightarrow> scored_message list" where
  "select_keyword env w uid pattern =
     take 50 (sort_key (\<lambda>r. - int (sm_createdAt r))
       [\<lparr>sm_id = msg_id m, sm_conversationId = conv_id c, sm_role = msg_sender m,
         sm_content = msg_content m, sm_createdAt = msg_created_at m,
         sm_conversationTitle = conv_title c, sm_similarity = 1 / 2\<rparr>.
        m \<leftarrow> messages_tbl w, c \<leftarrow> conversations_tbl w,
        msg_conversation_id m = Some (conv_id c),
        conv_user_id c = Some uid, ILIKE env (msg_content m) pattern])"

text \<open>\<open>row.similarity || 0\<close>.\<close>

definition keyword_message :: "scored_message \<Rightarrow> scored_message" where
  "keyword_message row = row\<lparr>sm_similarity := (if sm_similarity row = 0 then 0 else sm_similarity row)\<rparr>"

definition keyword_body :: "scored_message list \<Rightarrow> search_body" where
  "keyword_body rows =
     \<lparr>body_conversations = Object_values (groupByConversation (map keyword_message rows)),
      totalMessages = length rows,
      searchType = keyword,
      embeddingModel = None\<rparr>"

definition performKeywordSearch :: "env \<Rightarrow> nat \<Rightarrow> string \<Rightarrow> world \<Rightarrow> search_body result \<times> world" where
  "performKeywordSearch env uid q w =
     (case pool_query env (SelectKeyword uid q) w of
        (Some msg, w1) \<Rightarrow> (ErrorStatus 500 ''Failed to search messages'', w1)
      | (None, w1) \<Rightarrow>
          (let rows = select_keyword env w1 uid (''%'' @ q @ ''%'')
           in (Json (keyword_body rows), w1)))"

subsection \<open>searchMessages\<close>

definition select_embedded :: "world \<Rightarrow> nat \<Rightarrow> embedded_row list" where
  "select_embedded w uid =
     sort_key (\<lambda>r. - int (row_created_at r))
       [\<lparr>row_id = msg_id m, row_conversation_id = conv_id c, row_role = msg_sender m,
         row_content = msg_content m, row_created_at = msg_created_at m,
         row_conversation_title = conv_title c,
         row_embedding_vector = emb_embedding_vector e\<rparr>.
        m \<leftarrow> messages_tbl w, c \<leftarrow> conversations_tbl w,
        msg_conversation_id m = Some (conv_id c),
        e \<leftarrow> embeddings_tbl w, emb_message_id e = Some (msg_id m),
        conv_user_id c = Some uid]"

definition SIMILARITY_THRESHOLD :: real where
  "SIMILARITY_THRESHOLD = 3 / 10"

text \<open>The callback of \<open>result.rows.map\<close>: \<open>null\<close> when the stored text does not parse.\<close>

definition score_row :: "vector \<Rightarrow> embedded_row \<Rightarrow> scored_message option" where
  "score_row queryEmbedding row =
     (case JSON_parse (row_embedding_vector row) of
        Inl e \<Rightarrow> None
      | Inr messageEmbedding \<Rightarrow>
          Some \<lparr>sm_id = row_id row, sm_conversationId = row_conversation_id row,
                sm_role = row_role row, sm_content = row_content row,
                sm_createdAt = row_created_at row,
                sm_conversationTitle = row_conversation_title row,
                sm_similarity = cosineSimilarity (Some queryEmbedding) (Some messageEmbedding)\<rparr>)"

definition messagesWithScores :: "vector \<Rightarrow> embedded_row list \<Rightarrow> scored_message list" where
  "messagesWithScores queryEmbedding rows =
     map the (filter (\<lambda>msg. msg \<noteq> None) (map (score_row queryEmbedding) rows))"

text \<open>
  \<open>.filter(similarity >= threshold).sort((a, b) => b.similarity - a.similarity).slice(0, 50)\<close>;
  \<open>Array.prototype.sort\<close> is stable.
\<close>

definition relevantMessages :: "scored_message list \<Rightarrow> scored_message list" where
  "relevantMessages scored =
     take 50 (sort_key (\<lambda>msg. - sm_similarity msg)
                (filter (\<lambda>msg. sm_similarity msg \<ge> SIMILARITY_THRESHOLD) scored))"

definition semantic_body :: "scored_message list \<Rightarrow> search_body" where
  "semantic_body relevant =
     \<lparr>body_conversations = Object_values (groupByConversation relevant),
      totalMessages = length relevant,
      searchType = semantic,
      embeddingModel = Some EMBEDDING_MODEL\<rparr>"

definition searchMessages :: "env \<Rightarrow> search_request \<Rightarrow> world \<Rightarrow> search_body result \<times> world" where
  "searchMessages env req w =
     (case query req of
        None \<Rightarrow> (ErrorStatus 400 ''Search query too short'', w)
      | Some q \<Rightarrow>
          if too_short q then (ErrorStatus 400 ''Search query too short'', w)
          else (case generateEmbedding env (Some q) w of
                  (None, w1) \<Rightarrow> performKeywordSearch env (userId req) q w1
                | (Some queryEmbedding, w1) \<Rightarrow>
                    (case pool_query env (SelectEmbedded (userId req)) w1 of
                       (Some msg, w2) \<Rightarrow> (ErrorStatus 500 ''Failed to search messages'', w2)
                     | (None, w2) \<Rightarrow>
                         (let rows = select_embedded w2 (userId req) in
                          if length rows = 0 then performKeywordSearch env (userId req) q w2
                          else (let relevant = relevantMessages (messagesWithScores queryEmbedding rows) in
                                if length relevant = 0 then performKeywordSearch env (userId req) q w2
                                else (Json (semantic_body relevant), w2))))))"

subsection \<open>Groups that hold every hit once\<close>


subsection \<open>generateMissingEmbeddings\<close>

text \<open>SQL's \<open>TRIM\<close> strips space characters only, from both ends.\<close>

definition sql_trim :: "string \<Rightarrow> string" where
  "sql_trim s = rev (dropWhile (\<lambda>c. c = CHR 0x20) (rev (dropWhile (\<lambda>c. c = CHR 0x20) s)))"

record pending_row =
  pr_id :: nat
  pr_content :: string

text \<open>
  The \<open>SELECT\<close> of messages without an embedding: the user's messages that no embedding
  row points to and whose trimmed content has 3 characters or more, newest first, cut at
  the limit.
\<close>

definition select_unembedded :: "world \<Rightarrow> nat \<Rightarrow> nat \<Rightarrow> pending_row list" where
  "select_unembedded w uid cap =
     take cap (map (\<lambda>m. \<lparr>pr_id = msg_id m, pr_content = msg_content m\<rparr>)
       (sort_key (\<lambda>m. - int (msg_created_at m))
          [m. m \<leftarrow> messages_tbl w, c \<leftarrow> conversations_tbl w,
              msg_conversation_id m = Some (conv_id c),
              conv_user_id c = Some uid,
              \<not> (\<exists>e\<in>set (embeddings_tbl w). emb_message_id e = Some (msg_id m)),
              length (sql_trim (msg_content m)) \<ge> 3]))"

text \<open>
  PostgreSQL refuses a negative \<open>LIMIT\<close>, and one that does not fit a \<open>bigint\<close>.
\<close>

definition query_unembedded :: "env \<Rightarrow> nat \<Rightarrow> int \<Rightarrow> world \<Rightarrow> (error + pending_row list) \<times> world" where
  "query_unembedded env uid cap w =
     (case pool_query env (SelectUnembedded uid cap) w of
        (Some msg, w1) \<Rightarrow> (Inl (QueryRejected msg), w1)
      | (None, w1) \<Rightarrow>
          if cap < 0 \<or> cap > 9223372036854775807 then (Inl LimitOutOfRange, w1)
          else (Inr (select_unembedded w1 uid (nat cap)), w1))"

record backfill_request =
  bf_userId :: nat
  bf_limit :: "int option"

record backfill_error =
  be_messageId :: nat
  be_error :: error

text \<open>
  The \<open>for ... of\<close> loop over the fetched rows, on \<open>(successCount, failCount, errors)\<close>:
  \<open>successCount++\<close> when the awaited call returns, the \<open>catch\<close> branch when it throws.
\<close>

fun backfill_loop :: "env \<Rightarrow> pending_row list \<Rightarrow> nat \<times> nat \<times> backfill_error list \<Rightarrow> world
    \<Rightarrow> (nat \<times> nat \<times> backfill_error list) \<times> world" where
  "backfill_loop env [] acc w = (acc, w)"
| "backfill_loop env (row # rows) (successCount, failCount, errors) w =
     (case generateAndStoreEmbedding env (pr_id row) (Some (pr_content row)) w of
        (Inr u, w1) \<Rightarrow> backfill_loop env rows (successCount + 1, failCount, errors) w1
      | (Inl e, w1) \<Rightarrow>
          backfill_loop env rows
            (successCount, failCount + 1, errors @ [\<lparr>be_messageId = pr_id row, be_error = e\<rparr>]) w1)"

record backfill_body =
  success :: bool
  message :: "string option"
  totalProcessed :: nat
  successCount :: nat
  failCount :: nat
  bf_embeddingModel :: "string option"
  errors :: "backfill_error list option"

text \<open>
  \<open>bf_limit\<close> is what \<open>parseInt(req.query.limit)\<close> returns, \<open>None\<close> for \<open>NaN\<close>;
  \<open>|| 100\<close> replaces \<open>NaN\<close> and 0.
\<close>

definition effective_limit :: "int option \<Rightarrow> int" where
  "effective_limit parsed = (case parsed of None \<Rightarrow> 100 | Some n \<Rightarrow> if n = 0 then 100 else n)"

definition generateMissingEmbeddings :: "env \<Rightarrow> backfill_request \<Rightarrow> world \<Rightarrow> backfill_body result \<times> world" where
  "generateMissingEmbeddings env req w =
     (let limit = effective_limit (bf_limit req) in
      case query_unembedded env (bf_userId req) limit w of
        (Inl e, w1) \<Rightarrow> (ErrorStatus 500 ''Failed to generate embeddings'', w1)
      | (Inr rows, w1) \<Rightarrow>
          if length rows = 0
          then (Json \<lparr>success = True,
                      message = Some ''All messages already have embeddings'',
                      totalProcessed = 0, successCount = 0, failCount = 0,
                      bf_embeddingModel = None, errors = None\<rparr>, w1)
          else (case backfill_loop env rows (0, 0, []) w1 of
                  ((succeeded, failed, errs), w2) \<Rightarrow>
                    (Json \<lparr>success = True,
                           message = None,
                           totalProcessed = length rows,
                           successCount = succeeded,
                           failCount = failed,
                           bf_embeddingModel = Some EMBEDDING_MODEL,
                           errors = Some (take 5 errs)\<rparr>, w2)))"

subsection \<open>The group order the specification describes\<close>

text \<open>
  Conversation ids in the order in which each conversation's first hit occurs in the
  ranked list. This follows the specification's words, to be compared with what
  \<open>Object.values\<close> returns.
\<close>

fun first_hit_order :: "scored_message list \<Rightarrow> nat list" where
  "first_hit_order [] = []"
| "first_hit_order (msg # msgs) =
     sm_conversationId msg # filter (\<lambda>k. k \<noteq> sm_conversationId msg) (first_hit_order msgs)"

subsection \<open>Example environments and worlds\<close>

text \<open>
  Ollama answers every prompt with the vector \<open>[1, 0]\<close>, the pool accepts every
  query, and \<open>ILIKE\<close> answers as PostgreSQL does on the contents below for the one
  pattern used, \<open>%beta%\<close>.
\<close>

definition env_up :: env where
  "env_up =
     \<lparr>fetch = (\<lambda>n prompt. Inr \<lparr>ok = True, status = 200, json = Inr (Some [1, 0])\<rparr>),
      pool_rejects = (\<lambda>n. None),
      NOW = (\<lambda>n. 100 + n),
      ILIKE = (\<lambda>content pattern. content = ''beta two'' \<and> pattern = ''%beta%'')\<rparr>"

text \<open>Ollama is unreachable: every \<open>fetch\<close> rejects.\<close>

definition env_down :: env where
  "env_down = env_up\<lparr>fetch := (\<lambda>n prompt. Inl ''connect ECONNREFUSED'')\<rparr>"

text \<open>
  The pool rejects the third call made to a collaborator: in a backfill of one message
  that is the upsert, after the \<open>SELECT\<close> and the request to Ollama.
\<close>

definition env_store_down :: env where
  "env_store_down = env_up\<lparr>pool_rejects := (\<lambda>n. if n = 2 then Some ''Connection terminated'' else None)\<rparr>"

text \<open>User 7 has one conversation with one message, which has no embedding yet.\<close>

definition world_pending :: world where
  "world_pending =
     \<lparr>conversations_tbl = [\<lparr>conv_id = 1, conv_user_id = Some 7, conv_title = Some ''first''\<rparr>],
      messages_tbl = [\<lparr>msg_id = 11, msg_conversation_id = Some 1, msg_sender = ''user'',
                       msg_content = ''hello world'', msg_created_at = 10\<rparr>],
      embeddings_tbl = [],
      embeddings_id_seq = 1,
      trace = []\<rparr>"

text \<open>
  User 7 has two conversations with one embedded message each; the newer message, in
  conversation 2, has the embedding \<open>[1, 0]\<close>, the older one, in conversation 1, has
  \<open>[3, 4]\<close>.
\<close>

definition world_two :: world where
  "world_two =
     \<lparr>conversations_tbl = [\<lparr>conv_id = 1, conv_user_id = Some 7, conv_title = Some ''first''\<rparr>,
                           \<lparr>conv_id = 2, conv_user_id = Some 7, conv_title = Some ''second''\<rparr>],
      messages_tbl = [\<lparr>msg_id = 11, msg_conversation_id = Some 1, msg_sender = ''user'',
                       msg_content = ''alpha one'', msg_created_at = 10\<rparr>,
                      \<lparr>msg_id = 12, msg_conversation_id = Some 2, msg_sender = ''ai'',
                       msg_content = ''beta two'', msg_created_at = 20\<rparr>],
      embeddings_tbl = [\<lparr>emb_id = 1, emb_message_id = Some 11, emb_embedding_vector = Stringified [3, 4],
                         emb_model_name = Some ''nomic-embed-text:latest'', emb_created_at = 11, emb_updated_at = 11\<rparr>,
                        \<lparr>emb_id = 2, emb_message_id = Some 12, emb_embedding_vector = Stringified [1, 0],
                         emb_model_name = Some ''nomic-embed-text:latest'', emb_created_at = 21, emb_updated_at = 21\<rparr>],
      embeddings_id_seq = 3,
      trace = []\<rparr>"

text \<open>The same, but both stored embeddings are \<open>[0, 1]\<close>, orthogonal to every query embedding.\<close>

definition world_far :: world where
  "world_far =
     world_two\<lparr>embeddings_tbl :=
       map (\<lambda>e. e\<lparr>emb_embedding_vector := Stringified [0, 1]\<rparr>) (embeddings_tbl world_two)\<rparr>"

text \<open>The two hits of a search by user 7 in \<open>world_two\<close>, in rank order.\<close>

definition ranked_two :: "scored_message list" where
  "ranked_two =
     [\<lparr>sm_id = 12, sm_conversationId = 2, sm_role = ''ai'', sm_content = ''beta two'',
       sm_createdAt = 20, sm_conversationTitle = Some ''second'', sm_similarity = 1\<rparr>,
      \<lparr>sm_id = 11, sm_conversationId = 1, sm_role = ''user'', sm_content = ''alpha one'',
       sm_createdAt = 10, sm_conversationTitle = Some ''first'', sm_similarity = 3 / 5\<rparr>]"

text \<open>The one row of the keyword search for \<open>beta\<close> by user 7.\<close>

definition keyword_rows_beta :: "scored_message list" where
  "keyword_rows_beta =
     [\<lparr>sm_id = 12, sm_conversationId = 2, sm_role = ''ai'', sm_content = ''beta two'',
       sm_createdAt = 20, sm_conversationTitle = Some ''second'', sm_similarity = 1 / 2\<rparr>]"

text \<open>The body of a backfill that fetched one message and counted it as a success.\<close>

definition body_one :: backfill_body where
  "body_one =
     \<lparr>success = True, message = None, totalProcessed = 1, successCount = 1, failCount = 0,
      bf_embeddingModel = Some EMBEDDING_MODEL, errors = Some []\<rparr>"

section \<open>cosineSimilarity\<close>

subsection \<open>The loop computes the three sums\<close>

lemma cos_fold_upt:
  "n \<le> length vecA \<Longrightarrow> length vecA = length vecB \<Longrightarrow>
   fold (cos_step vecA vecB) [0..<n] (0, 0, 0) =
     ((\<Sum>i<n. vecA ! i * vecB ! i), (\<Sum>i<n. vecA ! i * vecA ! i), (\<Sum>i<n. vecB ! i * vecB ! i))"
proof (induction n)
  case 0
  then show ?case by simp
next
  case (Suc n)
  then show ?case by (simp add: cos_step_def)
qed

lemma sum_list_nth_sq: "(\<Sum>x\<leftarrow>v. x * x) = (\<Sum>i<length v. v ! i * (v ! i :: real))"
proof -
  have "(\<Sum>x\<leftarrow>v. x * x) = sum_list (map (\<lambda>i. v ! i * v ! i) [0..<length v])"
    by (metis (mono_tags, lifting) map_nth map_map comp_apply map_eq_conv)
  also have "\<dots> = (\<Sum>i<length v. v ! i * v ! i)"
    by (simp add: interv_sum_list_conv_sum_set_nat atLeast0LessThan)
  finally show ?thesis .
qed

lemma cos_loop_sums:
  assumes "length vecA = length vecB"
  shows "cos_loop vecA vecB =
     ((\<Sum>i<length vecA. vecA ! i * vecB ! i), (\<Sum>x\<leftarrow>vecA. x * x), (\<Sum>x\<leftarrow>vecB. x * x))"
  using cos_fold_upt [of "length vecA" vecA vecB] assms
  by (simp add: cos_loop_def sum_list_nth_sq)

lemma cosineSimilarity_eq:
  assumes "length vecA = length vecB"
  shows "cosineSimilarity (Some vecA) (Some vecB) =
     (if magnitude vecA = 0 \<or> magnitude vecB = 0 then 0
      else (\<Sum>i<length vecA. vecA ! i * vecB ! i) / (magnitude vecA * magnitude vecB))"
  using assms by (simp add: cosineSimilarity_def cos_loop_sums magnitude_def Let_def)

lemma sum_list_sq_zero_iff: "(\<Sum>x\<leftarrow>v. x * x) = 0 \<longleftrightarrow> (\<forall>x\<in>set v. x = (0::real))"
proof (induction v)
  case Nil
  then show ?case by simp
next
  case (Cons a v)
  have nn: "0 \<le> (\<Sum>x\<leftarrow>v. x * x)"
    by (rule sum_list_nonneg) auto
  have "a * a + (\<Sum>x\<leftarrow>v. x * x) = 0 \<longleftrightarrow> a * a = 0 \<and> (\<Sum>x\<leftarrow>v. x * x) = 0"
    using nn by (simp add: add_nonneg_eq_0_iff)
  with Cons show ?case by auto
qed

lemma magnitude_zero_iff: "magnitude v = 0 \<longleftrightarrow> (\<forall>x\<in>set v. x = 0)"
  by (simp add: magnitude_def sum_list_sq_zero_iff)

text \<open>
  C6. \<open>cosineSimilarity\<close> returns 0 when either input is absent, when the two
  lengths differ, and when either vector has zero magnitude, which is the case exactly
  for an all-zero vector. None of these is an error: the result is the number 0.
\<close>

theorem cosineSimilarity_degenerate:
  "cosineSimilarity None b = 0 \<and> cosineSimilarity a None = 0
   \<and> (length x \<noteq> length y \<longrightarrow> cosineSimilarity (Some x) (Some y) = 0)
   \<and> (magnitude u = 0 \<or> magnitude v = 0 \<longrightarrow> cosineSimilarity (Some u) (Some v) = 0)
   \<and> ((\<forall>c\<in>set p. c = 0) \<or> (\<forall>c\<in>set q. c = 0) \<longrightarrow> cosineSimilarity (Some p) (Some q) = 0)"
proof -
  have absent: "cosineSimilarity None b = 0 \<and> cosineSimilarity a None = 0"
    by (simp add: cosineSimilarity_def split: option.splits)
  have differ: "length x \<noteq> length y \<longrightarrow> cosineSimilarity (Some x) (Some y) = 0"
    by (simp add: cosineSimilarity_def)
  have zero: "magnitude s = 0 \<or> magnitude t = 0 \<Longrightarrow> cosineSimilarity (Some s) (Some t) = 0" for s t
  proof (cases "length s = length t")
    case True
    assume "magnitude s = 0 \<or> magnitude t = 0"
    with True show ?thesis by (simp add: cosineSimilarity_eq)
  next
    case False
    then show ?thesis by (simp add: cosineSimilarity_def)
  qed
  have allzero: "(\<forall>c\<in>set p. c = 0) \<or> (\<forall>c\<in>set q. c = 0) \<longrightarrow> cosineSimilarity (Some p) (Some q) = 0"
    using zero [of p q] by (simp add: magnitude_zero_iff)
  from absent differ zero [of u v] allzero show ?thesis by blast
qed

text \<open>Unequal lengths, an all-zero first vector, an all-zero second vector, and absent inputs.\<close>

theorem cosineSimilarity_degenerate_witness:
  "length [1::real] \<noteq> length [1, 2::real] \<and> cosineSimilarity (Some [1]) (Some [1, 2]) = 0
   \<and> magnitude [0, 0] = 0 \<and> cosineSimilarity (Some [0, 0]) (Some [1, 2]) = 0
   \<and> cosineSimilarity (Some [3, 4]) (Some [0, 0]) = 0
   \<and> cosineSimilarity None (Some [1, 2]) = 0 \<and> cosineSimilarity (Some [1, 2]) None = 0"
  using cosineSimilarity_degenerate [of "Some [1, 2]" "Some [1, 2]" "[1]" "[1, 2]" "[0, 0]" "[1, 2]" "[3, 4]" "[0, 0]"]
  by (simp add: magnitude_def)

section \<open>Grouping and ranking\<close>

subsection \<open>Objects: lookup, keys and order\<close>

lemma obj_get_None_iff: "obj_get obj k = None \<longleftrightarrow> k \<notin> set (map fst obj)"
  by (induction obj) force+

lemma obj_get_set: "obj_get (obj_set obj k v) j = (if j = k then Some v else obj_get obj j)"
  by (induction obj) auto

lemma obj_set_keys: "set (map fst (obj_set obj k v)) = insert k (set (map fst obj))"
  by (induction obj) force+

lemma obj_set_sorted:
  "sorted_wrt (<) (map fst obj) \<Longrightarrow> sorted_wrt (<) (map fst (obj_set obj k v))"
proof (induction obj)
  case Nil
  then show ?case by simp
next
  case (Cons e obj)
  obtain k' v' where e: "e = (k', v')" by (cases e)
  show ?case
  proof (cases "k = k'")
    case True
    with Cons.prems e show ?thesis by simp
  next
    case False
    show ?thesis
    proof (cases "k < k'")
      case True
      with Cons.prems e show ?thesis by auto
    next
      case notless: False
      have tl: "sorted_wrt (<) (map fst (obj_set obj k v))"
        using Cons by simp
      have "\<forall>j\<in>set (map fst (obj_set obj k v)). k' < j"
        using Cons.prems e False notless unfolding obj_set_keys by auto
      with tl e False notless show ?thesis by simp
    qed
  qed
qed

lemma obj_get_member:
  "sorted_wrt (<) (map fst obj) \<Longrightarrow> (k, v) \<in> set obj \<Longrightarrow> obj_get obj k = Some v"
proof (induction obj)
  case Nil
  then show ?case by simp
next
  case (Cons e obj)
  obtain k' v' where e: "e = (k', v')" by (cases e)
  have above: "\<forall>j\<in>set (map fst obj). k' < j"
    using Cons.prems(1) e by simp
  show ?case
  proof (cases "k' = k")
    case True
    have "(k, v) \<notin> set obj"
    proof
      assume "(k, v) \<in> set obj"
      then have "k \<in> set (map fst obj)" by force
      with above True show False by auto
    qed
    with Cons.prems(2) e True show ?thesis by simp
  next
    case False
    with Cons e show ?thesis by simp
  qed
qed

lemma obj_get_Some_member: "obj_get obj k = Some v \<Longrightarrow> (k, v) \<in> set obj"
  by (induction obj) (auto split: if_splits)


subsection \<open>One step of the grouping loop\<close>

lemma group_step_get:
  "obj_get (group_step G msg) k =
     (if k = sm_conversationId msg then Some (pushed (obj_get G k) msg) else obj_get G k)"
  by (cases "obj_get G (sm_conversationId msg)")
     (simp_all add: group_step_def pushed_def obj_get_set new_group_def)

lemma group_step_keys:
  "set (map fst (group_step G msg)) = insert (sm_conversationId msg) (set (map fst G))"
proof (cases "obj_get G (sm_conversationId msg)")
  case None
  then show ?thesis
    unfolding group_step_def by (simp add: obj_get_set obj_set_keys del: set_map)
next
  case (Some g)
  then have "sm_conversationId msg \<in> set (map fst G)"
    using obj_get_None_iff [of G "sm_conversationId msg"] by simp
  with Some show ?thesis
    unfolding group_step_def by (auto simp add: obj_set_keys simp del: set_map)
qed

lemma group_step_sorted:
  "sorted_wrt (<) (map fst G) \<Longrightarrow> sorted_wrt (<) (map fst (group_step G msg))"
  by (cases "obj_get G (sm_conversationId msg)")
     (simp_all add: group_step_def obj_get_set obj_set_sorted)


subsection \<open>The grouping loop\<close>

lemma groupByConversation_snoc:
  "groupByConversation (msgs @ [m]) = group_step (groupByConversation msgs) m"
  by (simp add: groupByConversation_def)

lemma group_sorted: "sorted_wrt (<) (map fst (groupByConversation msgs))"
proof (induction msgs rule: rev_induct)
  case Nil
  then show ?case by (simp add: groupByConversation_def)
next
  case (snoc m msgs)
  then show ?case by (simp only: groupByConversation_snoc group_step_sorted)
qed

lemma group_keys: "set (map fst (groupByConversation msgs)) = sm_conversationId ` set msgs"
proof (induction msgs rule: rev_induct)
  case Nil
  then show ?case by (simp add: groupByConversation_def)
next
  case (snoc m msgs)
  then show ?case
    by (simp only: groupByConversation_snoc group_step_keys) simp
qed


lemma group_get:
  "obj_get (groupByConversation msgs) k = Some g \<Longrightarrow>
     grp_conversationId g = k \<and>
     grp_messages g = map to_hit (filter (\<lambda>m. sm_conversationId m = k) msgs)"
proof (induction msgs arbitrary: g rule: rev_induct)
  case Nil
  then show ?case by (simp add: groupByConversation_def)
next
  case (snoc m msgs)
  let ?G = "groupByConversation msgs"
  from snoc.prems have step:
    "(if k = sm_conversationId m then Some (pushed (obj_get ?G k) m) else obj_get ?G k) = Some g"
    by (simp only: groupByConversation_snoc group_step_get)
  show ?case
  proof (cases "k = sm_conversationId m")
    case False
    with step have "obj_get ?G k = Some g" by simp
    from snoc.IH [OF this] False show ?thesis by simp
  next
    case True
    with step have g: "g = pushed (obj_get ?G k) m" by simp
    show ?thesis
    proof (cases "obj_get ?G k")
      case None
      then have "k \<notin> sm_conversationId ` set msgs"
        using obj_get_None_iff [of ?G k] group_keys [of msgs] by simp
      then have "filter (\<lambda>m. sm_conversationId m = k) msgs = []"
        by (auto simp: filter_empty_conv)
      with g None True show ?thesis
        by (simp add: pushed_def new_group_def)
    next
      case (Some g0)
      from snoc.IH [OF Some] g Some True show ?thesis
        by (simp add: pushed_def)
    qed
  qed
qed

subsection \<open>The groups of a response\<close>

lemma groups_lookup:
  assumes "g \<in> set (Object_values (groupByConversation msgs))"
  shows "obj_get (groupByConversation msgs) (grp_conversationId g) = Some g"
proof -
  from assms obtain k where kg: "(k, g) \<in> set (groupByConversation msgs)"
    by (auto simp: Object_values_def)
  then have get: "obj_get (groupByConversation msgs) k = Some g"
    by (rule obj_get_member [OF group_sorted])
  from group_get [OF get] have "grp_conversationId g = k" by simp
  with get show ?thesis by simp
qed

lemma groups_messages:
  "g \<in> set (Object_values (groupByConversation msgs)) \<Longrightarrow>
     grp_messages g = map to_hit (filter (\<lambda>m. sm_conversationId m = grp_conversationId g) msgs)"
  using group_get [OF groups_lookup] by simp

lemma groups_ids:
  "map grp_conversationId (Object_values (groupByConversation msgs)) = map fst (groupByConversation msgs)"
proof -
  have "\<forall>e\<in>set (groupByConversation msgs). grp_conversationId (snd e) = fst e"
  proof
    fix e assume e: "e \<in> set (groupByConversation msgs)"
    then have "(fst e, snd e) \<in> set (groupByConversation msgs)" by simp
    then have "obj_get (groupByConversation msgs) (fst e) = Some (snd e)"
      by (rule obj_get_member [OF group_sorted])
    from group_get [OF this] show "grp_conversationId (snd e) = fst e" by simp
  qed
  then show ?thesis by (simp add: Object_values_def)
qed

lemma groups_ids_ascending:
  "map grp_conversationId (Object_values (groupByConversation msgs))
     = sorted_list_of_set (sm_conversationId ` set msgs)"
proof -
  let ?ks = "map fst (groupByConversation msgs)"
  have "sorted ?ks" and "distinct ?ks"
    using group_sorted [of msgs] by (simp_all add: strict_sorted_iff)
  then have "sorted_list_of_set (set ?ks) = ?ks"
    by (rule sorted_list_of_set.idem_if_sorted_distinct)
  then show ?thesis
    by (simp only: groups_ids group_keys)
qed



lemma performKeywordSearch_Json:
  "fst (performKeywordSearch env uid q w) = Json body \<Longrightarrow> \<exists>rows. body = keyword_body rows"
  by (auto simp: performKeywordSearch_def Let_def split: prod.splits option.splits)

lemma searchMessages_Json:
  "fst (searchMessages env req w) = Json body \<Longrightarrow>
     (\<exists>msgs. msgs \<noteq> [] \<and> body = semantic_body msgs) \<or> (\<exists>rows. body = keyword_body rows)"
  by (auto simp: searchMessages_def Let_def dest: performKeywordSearch_Json
      split: prod.splits option.splits if_splits)

subsection \<open>The selects do not read the trace\<close>

lemma select_embedded_trace: "select_embedded (w\<lparr>trace := tr\<rparr>) uid = select_embedded w uid"
  by (simp add: select_embedded_def cong: if_cong)

lemma select_keyword_trace: "select_keyword env (w\<lparr>trace := tr\<rparr>) uid p = select_keyword env w uid p"
  by (simp add: select_keyword_def cong: if_cong)

lemma select_unembedded_trace: "select_unembedded (w\<lparr>trace := tr\<rparr>) uid n = select_unembedded w uid n"
  by (simp add: select_unembedded_def cong: if_cong)

subsection \<open>A search over two conversations, evaluated\<close>

lemma sqrt_25: "sqrt 25 = 5"
proof -
  have "sqrt (5\<^sup>2) = 5" by simp
  then show ?thesis by simp
qed

lemma cos_10_34: "cosineSimilarity (Some [1, 0]) (Some [3, 4]) = 3 / 5"
  by (simp add: cosineSimilarity_def cos_loop_def cos_step_def sqrt_25 upt_rec)

lemma cos_10_10: "cosineSimilarity (Some [1, 0]) (Some [1, 0]) = 1"
  by (simp add: cosineSimilarity_def cos_loop_def cos_step_def upt_rec)

lemma select_two: "select_embedded world_two 7 =
  [\<lparr>row_id = 12, row_conversation_id = 2, row_role = ''ai'', row_content = ''beta two'',
    row_created_at = 20, row_conversation_title = Some ''second'', row_embedding_vector = Stringified [1, 0]\<rparr>,
   \<lparr>row_id = 11, row_conversation_id = 1, row_role = ''user'', row_content = ''alpha one'',
    row_created_at = 10, row_conversation_title = Some ''first'', row_embedding_vector = Stringified [3, 4]\<rparr>]"
  by (simp add: select_embedded_def world_two_def)

lemma ranked_two_eq:
  "relevantMessages (messagesWithScores [1, 0] (select_embedded world_two 7)) = ranked_two"
  by (simp add: select_two messagesWithScores_def score_row_def JSON_parse_def cos_10_34 cos_10_10
      relevantMessages_def SIMILARITY_THRESHOLD_def ranked_two_def)

lemma embed_beta:
  "generateEmbedding env_up (Some ''beta'') world_two = (Some [1, 0], world_two\<lparr>trace := [Fetch ''beta'']\<rparr>)"
  by (simp add: generateEmbedding_def generateEmbedding_try_def too_short_def trim_def is_ws_def
      env_up_def world_two_def)

lemma query_two:
  "pool_query env_up (SelectEmbedded 7) (world_two\<lparr>trace := [Fetch ''beta'']\<rparr>)
     = (None, world_two\<lparr>trace := [Fetch ''beta'', Query (SelectEmbedded 7)]\<rparr>)"
  by (simp add: pool_query_def env_up_def)

lemma beta_not_short: "\<not> too_short ''beta''"
  by (simp add: too_short_def trim_def is_ws_def)

lemma ranked_two_nonempty: "ranked_two \<noteq> []"
  by (simp add: ranked_two_def)

lemma search_two:
  "searchMessages env_up \<lparr>userId = 7, query = Some ''beta''\<rparr> world_two
     = (Json (semantic_body ranked_two),
        world_two\<lparr>trace := [Fetch ''beta'', Query (SelectEmbedded 7)]\<rparr>)"
proof -
  have rows: "select_embedded world_two 7 \<noteq> []"
    by (simp add: select_two)
  show ?thesis
    using rows ranked_two_nonempty
    by (simp add: searchMessages_def beta_not_short embed_beta query_two select_embedded_trace
        ranked_two_eq)
qed

lemma groups_two:
  "map grp_conversationId (body_conversations (semantic_body ranked_two)) = [1, 2]"
  by (simp add: semantic_body_def groupByConversation_def group_step_def ranked_two_def
      Object_values_def new_group_def to_hit_def)

subsection \<open>A search where no stored embedding is close to the query\<close>

lemma embed_beta_far:
  "generateEmbedding env_up (Some ''beta'') world_far = (Some [1, 0], world_far\<lparr>trace := [Fetch ''beta'']\<rparr>)"
  by (simp add: generateEmbedding_def generateEmbedding_try_def too_short_def trim_def is_ws_def
      env_up_def world_far_def world_two_def)

lemma query_far:
  "pool_query env_up (SelectEmbedded 7) (world_far\<lparr>trace := [Fetch ''beta'']\<rparr>)
     = (None, world_far\<lparr>trace := [Fetch ''beta'', Query (SelectEmbedded 7)]\<rparr>)"
  by (simp add: pool_query_def env_up_def)

lemma cos_10_01: "cosineSimilarity (Some [1, 0]) (Some [0, 1]) = 0"
  by (simp add: cosineSimilarity_def cos_loop_def cos_step_def upt_rec)

lemma ranked_far:
  "relevantMessages (messagesWithScores [1, 0] (select_embedded world_far 7)) = []"
  by (simp add: select_embedded_def world_far_def world_two_def messagesWithScores_def score_row_def
      JSON_parse_def cos_10_01 relevantMessages_def SIMILARITY_THRESHOLD_def)

lemma keyword_far:
  "performKeywordSearch env_up 7 ''beta'' (world_far\<lparr>trace := [Fetch ''beta'', Query (SelectEmbedded 7)]\<rparr>)
     = (Json (keyword_body keyword_rows_beta),
        world_far\<lparr>trace := [Fetch ''beta'', Query (SelectEmbedded 7), Query (SelectKeyword 7 ''beta'')]\<rparr>)"
proof -
  have pq: "pool_query env_up (SelectKeyword 7 ''beta'') (world_far\<lparr>trace := [Fetch ''beta'', Query (SelectEmbedded 7)]\<rparr>)
      = (None, world_far\<lparr>trace := [Fetch ''beta'', Query (SelectEmbedded 7), Query (SelectKeyword 7 ''beta'')]\<rparr>)"
    by (simp add: pool_query_def env_up_def)
  have rows: "select_keyword env_up world_far 7 ''%beta%'' = keyword_rows_beta"
    by (simp add: select_keyword_def world_far_def world_two_def env_up_def keyword_rows_beta_def)
  show ?thesis
    by (simp add: performKeywordSearch_def pq select_keyword_trace rows)
qed

subsection \<open>Ranking\<close>

lemma relevant_threshold:
  "m \<in> set (relevantMessages scored) \<Longrightarrow> sm_similarity m \<ge> SIMILARITY_THRESHOLD"
  by (auto simp: relevantMessages_def dest: in_set_takeD)

lemma relevant_sorted:
  "sorted_wrt (\<lambda>a b. sm_similarity a \<ge> sm_similarity b) (relevantMessages scored)"
proof -
  let ?xs = "sort_key (\<lambda>msg. - sm_similarity msg)
               (filter (\<lambda>msg. sm_similarity msg \<ge> SIMILARITY_THRESHOLD) scored)"
  have "sorted (map (\<lambda>msg. - sm_similarity msg) ?xs)" by (rule sorted_sort_key)
  then have "sorted_wrt (\<lambda>a b. sm_similarity a \<ge> sm_similarity b) ?xs"
    by (simp add: sorted_map)
  then show ?thesis
    unfolding relevantMessages_def by (rule sorted_wrt_take)
qed

lemma relevant_length: "length (relevantMessages scored) \<le> 50"
  by (simp add: relevantMessages_def)

lemma relevant_empty_iff:
  "relevantMessages scored = [] \<longleftrightarrow> (\<forall>m\<in>set scored. sm_similarity m < SIMILARITY_THRESHOLD)"
proof -
  have "sort_key f xs = [] \<longleftrightarrow> xs = []" for f :: "scored_message \<Rightarrow> real" and xs
    by (metis length_sort length_0_conv)
  then show ?thesis
    by (auto simp: relevantMessages_def filter_empty_conv not_le)
qed

lemma searchMessages_ranked:
  assumes "query req = Some q" and "\<not> too_short q"
    and "generateEmbedding env (Some q) w = (Some queryEmbedding, w1)"
    and "pool_query env (SelectEmbedded (userId req)) w1 = (None, w2)"
    and "ranked = relevantMessages (messagesWithScores queryEmbedding (select_embedded w2 (userId req)))"
  shows "searchMessages env req w =
           (if ranked = [] then performKeywordSearch env (userId req) q w2
            else (Json (semantic_body ranked), w2))"
proof (cases "select_embedded w2 (userId req) = []")
  case True
  then have "ranked = []"
    using assms(5) by (simp add: messagesWithScores_def relevantMessages_def)
  with True assms(1-4) show ?thesis
    by (simp add: searchMessages_def)
next
  case False
  with assms show ?thesis
    by (simp add: searchMessages_def Let_def)
qed

section \<open>The claims about search\<close>

text \<open>
  C8. A search whose query trims to fewer than 3 characters ends with the validation
  error (status 400) and leaves the world as it was: the trace gains no event, so no
  request went to the embedding provider, no query to the store, and the keyword
  fallback was not run.
\<close>

theorem short_query_rejected_before_any_call:
  "query req = Some q \<Longrightarrow> length (trim q) < 3 \<Longrightarrow>
     searchMessages env req w = (ErrorStatus 400 ''Search query too short'', w)
     \<and> trace (snd (searchMessages env req w)) = trace w"
  by (simp add: searchMessages_def too_short_def)

text \<open>The query \<open>" a "\<close> trims to one character.\<close>

theorem short_query_rejected_witness:
  "length (trim '' a '') < 3
   \<and> searchMessages env_up \<lparr>userId = 7, query = Some '' a ''\<rparr> world_two
       = (ErrorStatus 400 ''Search query too short'', world_two)
   \<and> trace (snd (searchMessages env_up \<lparr>userId = 7, query = Some '' a ''\<rparr> world_two)) = []"
proof -
  have short: "length (trim '' a '') < 3"
    by (simp add: trim_def is_ws_def)
  have q: "query \<lparr>userId = 7, query = Some '' a ''\<rparr> = Some '' a ''"
    by simp
  from short_query_rejected_before_any_call [OF q short, of env_up world_two] short
  show ?thesis by (simp add: world_two_def)
qed

text \<open>
  C1, as stated, fails. In \<open>world_two\<close> the ranked list is the hit of
  conversation 2 (similarity 1) and then the hit of conversation 1 (similarity 3/5), so
  the order of first hits is 2, 1; the response lists conversation 1 before
  conversation 2.
\<close>

theorem search_group_order_counterexample:
  "relevantMessages (messagesWithScores [1, 0] (select_embedded world_two 7)) = ranked_two
   \<and> searchMessages env_up \<lparr>userId = 7, query = Some ''beta''\<rparr> world_two
       = (Json (semantic_body ranked_two),
          world_two\<lparr>trace := [Fetch ''beta'', Query (SelectEmbedded 7)]\<rparr>)
   \<and> map sm_similarity ranked_two = [1, 3 / 5]
   \<and> first_hit_order ranked_two = [2, 1]
   \<and> map grp_conversationId (body_conversations (semantic_body ranked_two)) = [1, 2]
   \<and> map grp_conversationId (body_conversations (semantic_body ranked_two)) \<noteq> first_hit_order ranked_two"
proof -
  have order: "first_hit_order ranked_two = [2, 1]"
    by (simp add: ranked_two_def)
  have sims: "map sm_similarity ranked_two = [1, 3 / 5]"
    by (simp add: ranked_two_def)
  from ranked_two_eq search_two sims order groups_two show ?thesis
    by simp
qed

text \<open>
  C1, amended. For every semantic search whose ranked hit list is non-empty, the
  conversation groups of the response appear in ascending order of conversation id: the
  list of their ids is the sorted list of the distinct conversation ids of the hits,
  whatever the rank of each conversation's first hit. Each group holds its hits in rank
  order.
\<close>

theorem search_groups_ascending_by_id:
  assumes "query req = Some q" and "\<not> too_short q"
    and "generateEmbedding env (Some q) w = (Some queryEmbedding, w1)"
    and "pool_query env (SelectEmbedded (userId req)) w1 = (None, w2)"
    and "ranked = relevantMessages (messagesWithScores queryEmbedding (select_embedded w2 (userId req)))"
    and "ranked \<noteq> []"
  shows "searchMessages env req w = (Json (semantic_body ranked), w2)
    \<and> map grp_conversationId (body_conversations (semantic_body ranked))
        = sorted_list_of_set (sm_conversationId ` set ranked)
    \<and> sorted_wrt (<) (map grp_conversationId (body_conversations (semantic_body ranked)))
    \<and> (\<forall>g\<in>set (body_conversations (semantic_body ranked)).
          grp_messages g = map to_hit (filter (\<lambda>m. sm_conversationId m = grp_conversationId g) ranked))"
proof -
  have resp: "searchMessages env req w = (Json (semantic_body ranked), w2)"
    using searchMessages_ranked [OF assms(1-5)] assms(6) by simp
  have ids: "map grp_conversationId (body_conversations (semantic_body ranked))
        = sorted_list_of_set (sm_conversationId ` set ranked)"
    by (simp add: semantic_body_def groups_ids_ascending)
  have asc: "sorted_wrt (<) (map grp_conversationId (body_conversations (semantic_body ranked)))"
    using group_sorted [of ranked] by (simp add: semantic_body_def groups_ids)
  have msgs: "\<forall>g\<in>set (body_conversations (semantic_body ranked)).
          grp_messages g = map to_hit (filter (\<lambda>m. sm_conversationId m = grp_conversationId g) ranked)"
    by (simp add: semantic_body_def groups_messages)
  from resp ids asc msgs show ?thesis by blast
qed

text \<open>The search of \<open>world_two\<close> meets every hypothesis.\<close>

theorem search_groups_ascending_by_id_witness:
  "searchMessages env_up \<lparr>userId = 7, query = Some ''beta''\<rparr> world_two
     = (Json (semantic_body ranked_two),
        world_two\<lparr>trace := [Fetch ''beta'', Query (SelectEmbedded 7)]\<rparr>)
   \<and> map grp_conversationId (body_conversations (semantic_body ranked_two))
       = sorted_list_of_set (sm_conversationId ` set ranked_two)
   \<and> sorted_wrt (<) (map grp_conversationId (body_conversations (semantic_body ranked_two)))"
proof -
  have q: "query \<lparr>userId = 7, query = Some ''beta''\<rparr> = Some ''beta''" by simp
  have e: "generateEmbedding env_up (Some ''beta'') world_two
             = (Some [1, 0], world_two\<lparr>trace := [Fetch ''beta'']\<rparr>)"
    by (rule embed_beta)
  have p: "pool_query env_up (SelectEmbedded (userId \<lparr>userId = 7, query = Some ''beta''\<rparr>))
             (world_two\<lparr>trace := [Fetch ''beta'']\<rparr>)
           = (None, world_two\<lparr>trace := [Fetch ''beta'', Query (SelectEmbedded 7)]\<rparr>)"
    using query_two by simp
  have r: "ranked_two = relevantMessages (messagesWithScores [1, 0]
             (select_embedded (world_two\<lparr>trace := [Fetch ''beta'', Query (SelectEmbedded 7)]\<rparr>)
                (userId \<lparr>userId = 7, query = Some ''beta''\<rparr>)))"
    by (simp add: select_embedded_trace ranked_two_eq)
  from search_groups_ascending_by_id [OF q beta_not_short e p r ranked_two_nonempty]
  show ?thesis by simp
qed

lemma to_hit_fields:
  "hit_conversationId (to_hit m) = sm_conversationId m" "hit_similarity (to_hit m) = sm_similarity m"
  by (simp_all add: to_hit_def)


subsection \<open>Every response holds the hits of its run\<close>














text \<open>
  C3. Take a search whose query is valid, whose query embedding is produced and whose
  \<open>SELECT\<close> of stored embeddings succeeds; \<open>scored\<close> are the candidates whose
  stored vector parses and \<open>ranked\<close> is the ranking of them. Then every ranked hit has
  similarity at least 0.3, the ranked hits are in descending order of similarity and
  there are at most 50 of them. If no candidate reaches the threshold, the handler
  answers with what the keyword fallback answers; otherwise it answers with the semantic
  body of the ranked hits, in which \<open>totalMessages\<close> is at most 50 and every group
  lists hits of similarity at least 0.3 in descending order.
\<close>

theorem semantic_hits_threshold_order_cap:
  assumes "query req = Some q" and "\<not> too_short q"
    and "generateEmbedding env (Some q) w = (Some queryEmbedding, w1)"
    and "pool_query env (SelectEmbedded (userId req)) w1 = (None, w2)"
    and "scored = messagesWithScores queryEmbedding (select_embedded w2 (userId req))"
    and "ranked = relevantMessages scored"
  shows "(\<forall>m\<in>set ranked. sm_similarity m \<ge> 3 / 10)
    \<and> sorted_wrt (\<lambda>a b. sm_similarity a \<ge> sm_similarity b) ranked
    \<and> length ranked \<le> 50
    \<and> ((\<forall>m\<in>set scored. sm_similarity m < 3 / 10) \<longrightarrow>
          searchMessages env req w = performKeywordSearch env (userId req) q w2)
    \<and> ((\<exists>m\<in>set scored. sm_similarity m \<ge> 3 / 10) \<longrightarrow>
          searchMessages env req w = (Json (semantic_body ranked), w2)
          \<and> totalMessages (semantic_body ranked) \<le> 50
          \<and> (\<forall>g\<in>set (body_conversations (semantic_body ranked)).
                (\<forall>h\<in>set (grp_messages g). hit_similarity h \<ge> 3 / 10)
                \<and> sorted_wrt (\<lambda>a b. hit_similarity a \<ge> hit_similarity b) (grp_messages g)))"
proof -
  have thr: "\<forall>m\<in>set ranked. sm_similarity m \<ge> 3 / 10"
    using relevant_threshold [of _ scored] assms(6) by (simp add: SIMILARITY_THRESHOLD_def)
  have srt: "sorted_wrt (\<lambda>a b. sm_similarity a \<ge> sm_similarity b) ranked"
    using relevant_sorted [of scored] assms(6) by simp
  have len: "length ranked \<le> 50"
    using relevant_length [of scored] assms(6) by simp
  have resp: "searchMessages env req w =
      (if ranked = [] then performKeywordSearch env (userId req) q w2
       else (Json (semantic_body ranked), w2))"
    using assms(5,6) by (intro searchMessages_ranked [OF assms(1-4)]) simp
  have empty: "ranked = [] \<longleftrightarrow> (\<forall>m\<in>set scored. sm_similarity m < 3 / 10)"
    using relevant_empty_iff [of scored] assms(6) by (simp add: SIMILARITY_THRESHOLD_def)
  have fallback: "(\<forall>m\<in>set scored. sm_similarity m < 3 / 10) \<longrightarrow>
      searchMessages env req w = performKeywordSearch env (userId req) q w2"
    using resp empty by simp
  have groups: "\<forall>g\<in>set (body_conversations (semantic_body ranked)).
      (\<forall>h\<in>set (grp_messages g). hit_similarity h \<ge> 3 / 10)
      \<and> sorted_wrt (\<lambda>a b. hit_similarity a \<ge> hit_similarity b) (grp_messages g)"
  proof
    fix g assume "g \<in> set (body_conversations (semantic_body ranked))"
    then have g: "grp_messages g = map to_hit (filter (\<lambda>m. sm_conversationId m = grp_conversationId g) ranked)"
      by (simp add: semantic_body_def groups_messages)
    have a: "\<forall>h\<in>set (grp_messages g). hit_similarity h \<ge> 3 / 10"
      using thr by (auto simp: g to_hit_fields)
    have "sorted_wrt (\<lambda>a b. sm_similarity a \<ge> sm_similarity b)
            (filter (\<lambda>m. sm_conversationId m = grp_conversationId g) ranked)"
      using srt by (rule sorted_wrt_filter)
    then have b: "sorted_wrt (\<lambda>a b. hit_similarity a \<ge> hit_similarity b) (grp_messages g)"
      by (simp add: g sorted_wrt_map to_hit_fields)
    from a b show "(\<forall>h\<in>set (grp_messages g). hit_similarity h \<ge> 3 / 10)
      \<and> sorted_wrt (\<lambda>a b. hit_similarity a \<ge> hit_similarity b) (grp_messages g)" ..
  qed
  have semantic: "(\<exists>m\<in>set scored. sm_similarity m \<ge> 3 / 10) \<longrightarrow>
      searchMessages env req w = (Json (semantic_body ranked), w2)
      \<and> totalMessages (semantic_body ranked) \<le> 50
      \<and> (\<forall>g\<in>set (body_conversations (semantic_body ranked)).
            (\<forall>h\<in>set (grp_messages g). hit_similarity h \<ge> 3 / 10)
            \<and> sorted_wrt (\<lambda>a b. hit_similarity a \<ge> hit_similarity b) (grp_messages g))"
  proof
    assume "\<exists>m\<in>set scored. sm_similarity m \<ge> 3 / 10"
    then have "ranked \<noteq> []" using empty by (auto simp: not_less)
    with resp have "searchMessages env req w = (Json (semantic_body ranked), w2)" by simp
    moreover have "totalMessages (semantic_body ranked) \<le> 50"
      using len by (simp add: semantic_body_def)
    ultimately show "searchMessages env req w = (Json (semantic_body ranked), w2)
      \<and> totalMessages (semantic_body ranked) \<le> 50
      \<and> (\<forall>g\<in>set (body_conversations (semantic_body ranked)).
            (\<forall>h\<in>set (grp_messages g). hit_similarity h \<ge> 3 / 10)
            \<and> sorted_wrt (\<lambda>a b. hit_similarity a \<ge> hit_similarity b) (grp_messages g))"
      using groups by simp
  qed
  from thr srt len fallback semantic show ?thesis by blast
qed

text \<open>
  Both cases occur: in \<open>world_two\<close> the search answers with two semantic hits, in
  \<open>world_far\<close> no candidate reaches the threshold and the keyword search answers.
\<close>

theorem semantic_hits_threshold_order_cap_witness:
  "searchMessages env_up \<lparr>userId = 7, query = Some ''beta''\<rparr> world_two
     = (Json (semantic_body ranked_two),
        world_two\<lparr>trace := [Fetch ''beta'', Query (SelectEmbedded 7)]\<rparr>)
   \<and> totalMessages (semantic_body ranked_two) \<le> 50
   \<and> sorted_wrt (\<lambda>a b. sm_similarity a \<ge> sm_similarity b) ranked_two
   \<and> searchMessages env_up \<lparr>userId = 7, query = Some ''beta''\<rparr> world_far
       = (Json (keyword_body keyword_rows_beta),
          world_far\<lparr>trace := [Fetch ''beta'', Query (SelectEmbedded 7), Query (SelectKeyword 7 ''beta'')]\<rparr>)
   \<and> searchType (keyword_body keyword_rows_beta) = keyword"
proof -
  let ?req = "\<lparr>userId = 7, query = Some ''beta''\<rparr>"
  have q: "query ?req = Some ''beta''" by simp
  have p2: "pool_query env_up (SelectEmbedded (userId ?req)) (world_two\<lparr>trace := [Fetch ''beta'']\<rparr>)
           = (None, world_two\<lparr>trace := [Fetch ''beta'', Query (SelectEmbedded 7)]\<rparr>)"
    using query_two by simp
  have s2: "messagesWithScores [1, 0] (select_embedded world_two 7)
      = messagesWithScores [1, 0]
          (select_embedded (world_two\<lparr>trace := [Fetch ''beta'', Query (SelectEmbedded 7)]\<rparr>) (userId ?req))"
    by (simp add: select_embedded_trace)
  have r2: "ranked_two = relevantMessages (messagesWithScores [1, 0] (select_embedded world_two 7))"
    by (simp add: ranked_two_eq)
  have some: "\<exists>m\<in>set (messagesWithScores [1, 0] (select_embedded world_two 7)). sm_similarity m \<ge> 3 / 10"
    by (simp add: select_two messagesWithScores_def score_row_def JSON_parse_def cos_10_10 cos_10_34)
  note two = semantic_hits_threshold_order_cap [OF q beta_not_short embed_beta p2 s2 r2]
  have pf: "pool_query env_up (SelectEmbedded (userId ?req)) (world_far\<lparr>trace := [Fetch ''beta'']\<rparr>)
           = (None, world_far\<lparr>trace := [Fetch ''beta'', Query (SelectEmbedded 7)]\<rparr>)"
    using query_far by simp
  have sf: "messagesWithScores [1, 0] (select_embedded world_far 7)
      = messagesWithScores [1, 0]
          (select_embedded (world_far\<lparr>trace := [Fetch ''beta'', Query (SelectEmbedded 7)]\<rparr>) (userId ?req))"
    by (simp add: select_embedded_trace)
  have rf: "[] = relevantMessages (messagesWithScores [1, 0] (select_embedded world_far 7))"
    by (simp add: ranked_far)
  have none: "\<forall>m\<in>set (messagesWithScores [1, 0] (select_embedded world_far 7)). sm_similarity m < 3 / 10"
    using ranked_far by (simp add: relevant_empty_iff SIMILARITY_THRESHOLD_def)
  note far = semantic_hits_threshold_order_cap [OF q beta_not_short embed_beta_far pf sf rf]
  from two some far none keyword_far show ?thesis
    by (simp add: keyword_body_def)
qed

section \<open>The claims about the backfill job\<close>

subsection \<open>The loop never takes its catch branch\<close>

lemma generateAndStoreEmbedding_resolves:
  "fst (generateAndStoreEmbedding env messageId content w) = Inr ()"
  by (simp add: generateAndStoreEmbedding_def split: prod.splits sum.splits)

lemma backfill_loop_counts:
  "fst (backfill_loop env rows (s, f, es) w) = (s + length rows, f, es)"
proof (induction rows arbitrary: s w)
  case Nil
  then show ?case by simp
next
  case (Cons row rows)
  obtain r w1 where step: "generateAndStoreEmbedding env (pr_id row) (Some (pr_content row)) w = (r, w1)"
    by (cases "generateAndStoreEmbedding env (pr_id row) (Some (pr_content row)) w")
  with generateAndStoreEmbedding_resolves [of env "pr_id row" "Some (pr_content row)" w]
  have "r = Inr ()" by simp
  with step Cons.IH [of "s + 1" w1] show ?case by simp
qed

lemma select_unembedded_length: "length (select_unembedded w uid n) \<le> n"
  by (simp add: select_unembedded_def)

lemma generateMissingEmbeddings_Json:
  assumes "fst (generateMissingEmbeddings env req w) = Json body"
  shows "0 \<le> effective_limit (bf_limit req)
    \<and> totalProcessed body \<le> nat (effective_limit (bf_limit req))
    \<and> successCount body = totalProcessed body
    \<and> failCount body = 0
    \<and> (errors body = None \<or> errors body = Some [])"
proof -
  let ?limit = "effective_limit (bf_limit req)"
  obtain r w1 where q: "query_unembedded env (bf_userId req) ?limit w = (r, w1)"
    by (cases "query_unembedded env (bf_userId req) ?limit w")
  show ?thesis
  proof (cases r)
    case (Inl e)
    with q assms show ?thesis by (simp add: generateMissingEmbeddings_def)
  next
    case (Inr rows)
    from q Inr have ok: "0 \<le> ?limit" and rows: "rows = select_unembedded w1 (bf_userId req) (nat ?limit)"
      by (auto simp: query_unembedded_def split: prod.splits option.splits if_splits)
    have len: "length rows \<le> nat ?limit"
      unfolding rows by (rule select_unembedded_length)
    show ?thesis
    proof (cases "rows = []")
      case True
      with q Inr assms ok show ?thesis
        by (auto simp: generateMissingEmbeddings_def)
    next
      case False
      obtain acc w2 where l: "backfill_loop env rows (0, 0, []) w1 = (acc, w2)"
        by (cases "backfill_loop env rows (0, 0, []) w1")
      with backfill_loop_counts [of env rows 0 0 "[]" w1] have "acc = (length rows, 0, [])"
        by simp
      with q Inr assms ok len False l show ?thesis
        by (auto simp: generateMissingEmbeddings_def)
    qed
  qed
qed

subsection \<open>Backfills of one pending message, evaluated\<close>

lemmas backfill_defs =
  generateMissingEmbeddings_def effective_limit_def query_unembedded_def pool_query_def
  select_unembedded_def sql_trim_def generateAndStoreEmbedding_def generateAndStoreEmbedding_try_def
  too_short_def trim_def is_ws_def generateEmbedding_def generateEmbedding_try_def
  storeEmbedding_def storeEmbedding_try_def query_upsert_def inserted_row_def JSON_stringify_def
  body_one_def

lemma run_provider_down:
  "generateMissingEmbeddings env_down \<lparr>bf_userId = 7, bf_limit = None\<rparr> world_pending
     = (Json body_one,
        world_pending\<lparr>trace := [Query (SelectUnembedded 7 100), Fetch ''hello world'']\<rparr>)"
  by (simp add: backfill_defs env_down_def env_up_def world_pending_def)

lemma run_store_down:
  "generateMissingEmbeddings env_store_down \<lparr>bf_userId = 7, bf_limit = None\<rparr> world_pending
     = (Json body_one,
        world_pending\<lparr>trace := [Query (SelectUnembedded 7 100), Fetch ''hello world'',
                                 Query (UpsertEmbedding 11)]\<rparr>)"
  by (simp add: backfill_defs env_store_down_def env_up_def world_pending_def)

lemma run_limit_one:
  "fst (generateMissingEmbeddings env_up \<lparr>bf_userId = 7, bf_limit = Some 1\<rparr> world_pending) = Json body_one"
  by (simp add: backfill_defs env_up_def world_pending_def)

lemma run_limit_zero:
  "fst (generateMissingEmbeddings env_up \<lparr>bf_userId = 7, bf_limit = Some 0\<rparr> world_pending) = Json body_one"
  by (simp add: backfill_defs env_up_def world_pending_def)

lemma run_limit_one_stored:
  "embeddings_tbl (snd (generateMissingEmbeddings env_up \<lparr>bf_userId = 7, bf_limit = Some 1\<rparr> world_pending))
     = [\<lparr>emb_id = 1, emb_message_id = Some 11, emb_embedding_vector = Stringified [1, 0],
         emb_model_name = Some EMBEDDING_MODEL, emb_created_at = 102, emb_updated_at = 102\<rparr>]"
  by (simp add: backfill_defs env_up_def world_pending_def)

text \<open>
  C4, as stated, fails for the limit 0: \<open>parseInt("0") || 100\<close> is 100, so a run with
  limit 0 on a world with one pending message processes that message.
\<close>

theorem backfill_limit_zero_counterexample:
  "bf_limit \<lparr>bf_userId = 7, bf_limit = Some 0\<rparr> = Some 0
   \<and> fst (generateMissingEmbeddings env_up \<lparr>bf_userId = 7, bf_limit = Some 0\<rparr> world_pending) = Json body_one
   \<and> totalProcessed body_one = 1
   \<and> \<not> int (totalProcessed body_one) \<le> 0"
  using run_limit_zero by (simp add: body_one_def)

text \<open>
  C4, amended. For every run of the backfill job that answers with a result, with
  requested limit L: \<open>totalProcessed\<close> is at most the limit the job runs with, which is
  L when L is a non-zero integer and 100 when L is absent, not a number, or 0; the
  \<open>errors\<close> array, when the response has one, has at most 5 entries; and
  \<open>successCount + failCount = totalProcessed\<close>.
\<close>

theorem backfill_bounds:
  assumes "fst (generateMissingEmbeddings env req w) = Json body"
  shows "int (totalProcessed body) \<le> effective_limit (bf_limit req)
    \<and> (\<forall>L. bf_limit req = Some L \<and> L \<noteq> 0 \<longrightarrow> int (totalProcessed body) \<le> L)
    \<and> (bf_limit req = None \<or> bf_limit req = Some 0 \<longrightarrow> totalProcessed body \<le> 100)
    \<and> length (case errors body of None \<Rightarrow> [] | Some es \<Rightarrow> es) \<le> 5
    \<and> successCount body + failCount body = totalProcessed body"
proof -
  note facts = generateMissingEmbeddings_Json [OF assms]
  from facts have a: "int (totalProcessed body) \<le> effective_limit (bf_limit req)"
    by linarith
  from a have b: "\<forall>L. bf_limit req = Some L \<and> L \<noteq> 0 \<longrightarrow> int (totalProcessed body) \<le> L"
    by (auto simp: effective_limit_def)
  from a have c: "bf_limit req = None \<or> bf_limit req = Some 0 \<longrightarrow> totalProcessed body \<le> 100"
    by (auto simp: effective_limit_def)
  from facts have d: "length (case errors body of None \<Rightarrow> [] | Some es \<Rightarrow> es) \<le> 5"
    by auto
  from facts have e: "successCount body + failCount body = totalProcessed body"
    by simp
  from a b c d e show ?thesis by blast
qed

text \<open>A run with limit 1 and a run with limit 0, on the world with one pending message.\<close>

theorem backfill_bounds_witness:
  "fst (generateMissingEmbeddings env_up \<lparr>bf_userId = 7, bf_limit = Some 1\<rparr> world_pending) = Json body_one
   \<and> int (totalProcessed body_one) \<le> 1
   \<and> totalProcessed body_one \<le> 100
   \<and> length (case errors body_one of None \<Rightarrow> [] | Some es \<Rightarrow> es) \<le> 5
   \<and> successCount body_one + failCount body_one = totalProcessed body_one"
proof -
  note one = backfill_bounds [OF run_limit_one]
  note zero = backfill_bounds [OF run_limit_zero]
  from one have "int (totalProcessed body_one) \<le> 1" by simp
  moreover from zero have "totalProcessed body_one \<le> 100" by simp
  moreover from one have "length (case errors body_one of None \<Rightarrow> [] | Some es \<Rightarrow> es) \<le> 5" by blast
  moreover from one have "successCount body_one + failCount body_one = totalProcessed body_one" by blast
  ultimately show ?thesis using run_limit_one by blast
qed

text \<open>
  C2. A message whose generate-and-store attempt fails should increment \<open>failCount\<close>
  and be recorded in \<open>errors\<close>; the code counts it as a success. With Ollama
  unreachable, the one pending message gets no embedding, and with the pool rejecting
  the upsert it gets none either; both runs answer \<open>successCount = 1\<close>,
  \<open>failCount = 0\<close> and an empty \<open>errors\<close> array, and the table of embeddings is
  as empty after the run as before. generateAndStoreEmbedding catches every failure
  itself, so the \<open>catch\<close> branch of the loop is never taken.
\<close>

theorem backfill_counts_failed_item_as_success:
  "generateMissingEmbeddings env_down \<lparr>bf_userId = 7, bf_limit = None\<rparr> world_pending
     = (Json body_one,
        world_pending\<lparr>trace := [Query (SelectUnembedded 7 100), Fetch ''hello world'']\<rparr>)
   \<and> generateMissingEmbeddings env_store_down \<lparr>bf_userId = 7, bf_limit = None\<rparr> world_pending
     = (Json body_one,
        world_pending\<lparr>trace := [Query (SelectUnembedded 7 100), Fetch ''hello world'',
                                 Query (UpsertEmbedding 11)]\<rparr>)
   \<and> embeddings_tbl world_pending = []
   \<and> successCount body_one = 1 \<and> failCount body_one = 0 \<and> errors body_one = Some []"
  using run_provider_down run_store_down by (simp add: body_one_def world_pending_def)

section \<open>The claims about the upsert\<close>

subsection \<open>What a successful upsert does\<close>

lemma query_upsert_Inr:
  assumes "query_upsert env messageId vec model w = (Inr (), w')"
  shows "conversations_tbl w' = conversations_tbl w"
    and "messages_tbl w' = messages_tbl w"
    and "trace w' = trace w @ [Query (UpsertEmbedding messageId)]"
    and "embeddings_tbl w' =
      (if \<exists>r\<in>set (embeddings_tbl w). emb_message_id r = Some messageId
       then map (\<lambda>r. if emb_message_id r = Some messageId
                       then do_update vec model (NOW env (length (trace w))) r else r) (embeddings_tbl w)
       else embeddings_tbl w @
              [inserted_row (embeddings_id_seq w) messageId vec model (NOW env (length (trace w)))])"
  using assms
  by (auto simp: query_upsert_def pool_query_def Let_def split: option.splits if_splits)

lemma storeEmbedding_True:
  "storeEmbedding env messageId embedding w = (True, w') \<Longrightarrow>
     query_upsert env messageId (JSON_stringify embedding) EMBEDDING_MODEL w = (Inr (), w')"
  by (auto simp: storeEmbedding_def storeEmbedding_try_def Let_def split: prod.splits sum.splits)

lemma unique_rows_for:
  "unique_message_id tbl \<Longrightarrow> length (rows_for messageId tbl) \<le> 1"
proof (induction tbl)
  case Nil
  then show ?case by (simp add: rows_for_def)
next
  case (Cons r tbl)
  from Cons.prems have u: "unique_message_id tbl"
    by (auto simp: unique_message_id_def split: if_splits)
  show ?case
  proof (cases "emb_message_id r = Some messageId")
    case True
    with Cons.prems have "Some messageId \<notin> set (map emb_message_id tbl)"
      by (auto simp: unique_message_id_def)
    then have "rows_for messageId tbl = []"
      by (force simp: rows_for_def filter_empty_conv)
    with True show ?thesis by (simp add: rows_for_def)
  next
    case False
    with Cons.IH [OF u] show ?thesis by (simp add: rows_for_def)
  qed
qed

lemma rows_for_update:
  "rows_for messageId (map (\<lambda>r. if emb_message_id r = Some messageId then do_update vec model now r else r) tbl)
     = map (do_update vec model now) (rows_for messageId tbl)"
  by (induction tbl) (auto simp: rows_for_def do_update_def)

lemma rows_for_empty: "rows_for messageId tbl = [] \<longleftrightarrow> \<not> (\<exists>r\<in>set tbl. emb_message_id r = Some messageId)"
  by (auto simp: rows_for_def filter_empty_conv)

text \<open>After a successful upsert the message has exactly one row, carrying what was written.\<close>

lemma upsert_single_row:
  assumes u: "unique_message_id (embeddings_tbl w)"
    and q: "query_upsert env messageId vec model w = (Inr (), w')"
  shows "\<exists>r. rows_for messageId (embeddings_tbl w') = [do_update vec model (NOW env (length (trace w))) r]
            \<and> (rows_for messageId (embeddings_tbl w) = [r]
                \<or> rows_for messageId (embeddings_tbl w) = []
                   \<and> r = inserted_row (embeddings_id_seq w) messageId vec model (NOW env (length (trace w))))"
proof (cases "\<exists>r\<in>set (embeddings_tbl w). emb_message_id r = Some messageId")
  case True
  then have "rows_for messageId (embeddings_tbl w) \<noteq> []" by (simp add: rows_for_empty)
  moreover have "length (rows_for messageId (embeddings_tbl w)) \<le> 1"
    using u by (rule unique_rows_for)
  ultimately obtain r where r: "rows_for messageId (embeddings_tbl w) = [r]"
    by (cases "rows_for messageId (embeddings_tbl w)") auto
  from query_upsert_Inr(4) [OF q] True r show ?thesis
    by (simp add: rows_for_update)
next
  case False
  then have "rows_for messageId (embeddings_tbl w) = []" by (simp add: rows_for_empty)
  with query_upsert_Inr(4) [OF q] False show ?thesis
    by (simp add: rows_for_def inserted_row_def do_update_def)
qed

lemma upsert_keeps_unique:
  assumes u: "unique_message_id (embeddings_tbl w)"
    and q: "query_upsert env messageId vec model w = (Inr (), w')"
  shows "unique_message_id (embeddings_tbl w')"
proof (cases "\<exists>r\<in>set (embeddings_tbl w). emb_message_id r = Some messageId")
  case True
  have "map emb_message_id (map (\<lambda>r. if emb_message_id r = Some messageId then do_update vec model now r else r) tbl)
      = map emb_message_id tbl" for now tbl
    by (induction tbl) (auto simp: do_update_def)
  with query_upsert_Inr(4) [OF q] True
  have "map emb_message_id (embeddings_tbl w') = map emb_message_id (embeddings_tbl w)"
    by (simp only: if_True)
  with u show ?thesis
    by (simp only: unique_message_id_def)
next
  case False
  then have "Some messageId \<notin> set (map emb_message_id (embeddings_tbl w))" by auto
  with query_upsert_Inr(4) [OF q] False u show ?thesis
    by (auto simp: unique_message_id_def inserted_row_def)
qed

subsection \<open>Upserts evaluated\<close>

lemma store_first:
  "storeEmbedding env_up 11 [1, 0] world_pending
     = (True, world_pending\<lparr>embeddings_tbl := [inserted_row 1 11 (Stringified [1, 0]) EMBEDDING_MODEL 100],
                            embeddings_id_seq := 2, trace := [Query (UpsertEmbedding 11)]\<rparr>)"
  by (simp add: storeEmbedding_def storeEmbedding_try_def query_upsert_def pool_query_def
      JSON_stringify_def env_up_def world_pending_def)

lemma store_second:
  "storeEmbedding env_up 11 [0, 1]
      (world_pending\<lparr>embeddings_tbl := [inserted_row 1 11 (Stringified [1, 0]) EMBEDDING_MODEL 100],
                      embeddings_id_seq := 2, trace := [Query (UpsertEmbedding 11)]\<rparr>)
     = (True, world_pending\<lparr>embeddings_tbl :=
                [\<lparr>emb_id = 1, emb_message_id = Some 11, emb_embedding_vector = Stringified [0, 1],
                  emb_model_name = Some EMBEDDING_MODEL, emb_created_at = 100, emb_updated_at = 101\<rparr>],
              embeddings_id_seq := 3,
              trace := [Query (UpsertEmbedding 11), Query (UpsertEmbedding 11)]\<rparr>)"
  by (simp add: storeEmbedding_def storeEmbedding_try_def query_upsert_def pool_query_def
      JSON_stringify_def env_up_def world_pending_def inserted_row_def do_update_def)

lemma store_overwrite:
  "storeEmbedding env_up 11 [0, 1] world_two
     = (True, world_two\<lparr>embeddings_tbl :=
          [\<lparr>emb_id = 1, emb_message_id = Some 11, emb_embedding_vector = Stringified [0, 1],
            emb_model_name = Some EMBEDDING_MODEL, emb_created_at = 11, emb_updated_at = 100\<rparr>,
           \<lparr>emb_id = 2, emb_message_id = Some 12, emb_embedding_vector = Stringified [1, 0],
            emb_model_name = Some ''nomic-embed-text:latest'', emb_created_at = 21, emb_updated_at = 21\<rparr>],
          embeddings_id_seq := 4, trace := [Query (UpsertEmbedding 11)]\<rparr>)"
  by (simp add: storeEmbedding_def storeEmbedding_try_def query_upsert_def pool_query_def
      JSON_stringify_def env_up_def world_two_def do_update_def)

text \<open>
  C5. Take a table that satisfies the UNIQUE constraint and two successive upserts for
  the same message id that both execute (storeEmbedding returns true). After the first
  the message has exactly one row \<open>r1\<close>, holding the first vector and the model
  name. After the second it still has exactly one row: \<open>r1\<close> with the second vector
  and a refreshed \<open>updated_at\<close>; the stored text parses back to the second vector, and
  the table has not grown. When the two vectors are the same, the row after the second
  call is \<open>r1\<close> but for \<open>updated_at\<close>.
\<close>

theorem upsert_twice_last_write_wins:
  assumes "unique_message_id (embeddings_tbl w)"
    and "storeEmbedding env messageId v1 w = (True, w1)"
    and "storeEmbedding env messageId v2 w1 = (True, w2)"
  shows "\<exists>r1. rows_for messageId (embeddings_tbl w1) = [r1]
      \<and> emb_embedding_vector r1 = JSON_stringify v1 \<and> emb_model_name r1 = Some EMBEDDING_MODEL
      \<and> rows_for messageId (embeddings_tbl w2)
          = [r1\<lparr>emb_embedding_vector := JSON_stringify v2, emb_updated_at := NOW env (length (trace w1))\<rparr>]
      \<and> JSON_parse (JSON_stringify v2) = Inr v2
      \<and> length (embeddings_tbl w2) = length (embeddings_tbl w1)
      \<and> (v2 = v1 \<longrightarrow> rows_for messageId (embeddings_tbl w2)
                        = [r1\<lparr>emb_updated_at := NOW env (length (trace w1))\<rparr>])"
proof -
  let ?M = EMBEDDING_MODEL
  note q1 = storeEmbedding_True [OF assms(2)]
  note q2 = storeEmbedding_True [OF assms(3)]
  from upsert_single_row [OF assms(1) q1] obtain r0 where
    r0: "rows_for messageId (embeddings_tbl w1) = [do_update (JSON_stringify v1) ?M (NOW env (length (trace w))) r0]"
    by blast
  define r1 where "r1 = do_update (JSON_stringify v1) ?M (NOW env (length (trace w))) r0"
  have first: "rows_for messageId (embeddings_tbl w1) = [r1]"
    using r0 by (simp add: r1_def)
  have vec1: "emb_embedding_vector r1 = JSON_stringify v1" and model1: "emb_model_name r1 = Some ?M"
    by (simp_all add: r1_def do_update_def)
  have u1: "unique_message_id (embeddings_tbl w1)"
    using assms(1) q1 by (rule upsert_keeps_unique)
  from upsert_single_row [OF u1 q2] first
  have "rows_for messageId (embeddings_tbl w2)
      = [do_update (JSON_stringify v2) ?M (NOW env (length (trace w1))) r1]"
    by auto
  moreover have "do_update (JSON_stringify v2) ?M (NOW env (length (trace w1))) r1
      = r1\<lparr>emb_embedding_vector := JSON_stringify v2, emb_updated_at := NOW env (length (trace w1))\<rparr>"
    by (simp add: r1_def do_update_def)
  ultimately have second: "rows_for messageId (embeddings_tbl w2)
      = [r1\<lparr>emb_embedding_vector := JSON_stringify v2, emb_updated_at := NOW env (length (trace w1))\<rparr>]"
    by simp
  have parse: "JSON_parse (JSON_stringify v2) = Inr v2"
    by (simp add: JSON_parse_def JSON_stringify_def)
  have ex: "\<exists>r\<in>set (embeddings_tbl w1). emb_message_id r = Some messageId"
    using first rows_for_empty [of messageId "embeddings_tbl w1"] by simp
  have len: "length (embeddings_tbl w2) = length (embeddings_tbl w1)"
    using query_upsert_Inr(4) [OF q2] ex by simp
  have same: "v2 = v1 \<longrightarrow> rows_for messageId (embeddings_tbl w2)
                        = [r1\<lparr>emb_updated_at := NOW env (length (trace w1))\<rparr>]"
    using second by (simp add: r1_def do_update_def)
  from first vec1 model1 second parse len same show ?thesis by blast
qed

text \<open>Two upserts for message 11, first \<open>[1, 0]\<close> then \<open>[0, 1]\<close>, into an empty table.\<close>

theorem upsert_twice_last_write_wins_witness:
  "unique_message_id (embeddings_tbl world_pending)
   \<and> rows_for 11 (embeddings_tbl (snd (storeEmbedding env_up 11 [0, 1]
        (snd (storeEmbedding env_up 11 [1, 0] world_pending)))))
       = [\<lparr>emb_id = 1, emb_message_id = Some 11, emb_embedding_vector = Stringified [0, 1],
           emb_model_name = Some EMBEDDING_MODEL, emb_created_at = 100, emb_updated_at = 101\<rparr>]"
proof -
  have u: "unique_message_id (embeddings_tbl world_pending)"
    by (simp add: unique_message_id_def world_pending_def)
  from upsert_twice_last_write_wins [OF u store_first store_second]
  obtain r1 where
    a: "rows_for 11 (embeddings_tbl (world_pending\<lparr>embeddings_tbl := [inserted_row 1 11 (Stringified [1, 0]) EMBEDDING_MODEL 100],
                            embeddings_id_seq := 2, trace := [Query (UpsertEmbedding 11)]\<rparr>)) = [r1]"
    and b: "rows_for 11 (embeddings_tbl (world_pending\<lparr>embeddings_tbl :=
                [\<lparr>emb_id = 1, emb_message_id = Some 11, emb_embedding_vector = Stringified [0, 1],
                  emb_model_name = Some EMBEDDING_MODEL, emb_created_at = 100, emb_updated_at = 101\<rparr>],
              embeddings_id_seq := 3,
              trace := [Query (UpsertEmbedding 11), Query (UpsertEmbedding 11)]\<rparr>))
        = [r1\<lparr>emb_embedding_vector := JSON_stringify [0, 1],
               emb_updated_at := NOW env_up (length (trace (world_pending\<lparr>embeddings_tbl := [inserted_row 1 11 (Stringified [1, 0]) EMBEDDING_MODEL 100],
                            embeddings_id_seq := 2, trace := [Query (UpsertEmbedding 11)]\<rparr>)))\<rparr>]"
    by blast
  from a have "r1 = inserted_row 1 11 (Stringified [1, 0]) EMBEDDING_MODEL 100"
    by (simp add: rows_for_def inserted_row_def)
  with b have rows: "rows_for 11 (embeddings_tbl (world_pending\<lparr>embeddings_tbl :=
                [\<lparr>emb_id = 1, emb_message_id = Some 11, emb_embedding_vector = Stringified [0, 1],
                  emb_model_name = Some EMBEDDING_MODEL, emb_created_at = 100, emb_updated_at = 101\<rparr>],
              embeddings_id_seq := 3,
              trace := [Query (UpsertEmbedding 11), Query (UpsertEmbedding 11)]\<rparr>))
       = [\<lparr>emb_id = 1, emb_message_id = Some 11, emb_embedding_vector = Stringified [0, 1],
           emb_model_name = Some EMBEDDING_MODEL, emb_created_at = 100, emb_updated_at = 101\<rparr>]"
    by (simp add: inserted_row_def JSON_stringify_def env_up_def)
  from u rows show ?thesis
    by (simp only: store_first store_second snd_conv)
qed

text \<open>
  C10. When an upsert that executes finds a row for the message id, the table afterwards
  is the table before with only \<open>embedding_vector\<close>, \<open>model_name\<close> and
  \<open>updated_at\<close> of that row rewritten: every row keeps its \<open>id\<close>, its
  \<open>message_id\<close> and its \<open>created_at\<close>, the rows of other messages are unchanged,
  and so are the tables of messages and conversations.
\<close>

theorem upsert_overwrite_frame:
  assumes "storeEmbedding env messageId v w = (True, w')"
    and "\<exists>r\<in>set (embeddings_tbl w). emb_message_id r = Some messageId"
  shows "embeddings_tbl w' =
      map (\<lambda>r. if emb_message_id r = Some messageId
                then r\<lparr>emb_embedding_vector := JSON_stringify v, emb_model_name := Some EMBEDDING_MODEL,
                       emb_updated_at := NOW env (length (trace w))\<rparr>
                else r) (embeddings_tbl w)
    \<and> map emb_id (embeddings_tbl w') = map emb_id (embeddings_tbl w)
    \<and> map emb_message_id (embeddings_tbl w') = map emb_message_id (embeddings_tbl w)
    \<and> map emb_created_at (embeddings_tbl w') = map emb_created_at (embeddings_tbl w)
    \<and> filter (\<lambda>r. emb_message_id r \<noteq> Some messageId) (embeddings_tbl w')
        = filter (\<lambda>r. emb_message_id r \<noteq> Some messageId) (embeddings_tbl w)
    \<and> messages_tbl w' = messages_tbl w \<and> conversations_tbl w' = conversations_tbl w"
proof -
  note q = storeEmbedding_True [OF assms(1)]
  let ?upd = "\<lambda>r. if emb_message_id r = Some messageId
                then r\<lparr>emb_embedding_vector := JSON_stringify v, emb_model_name := Some EMBEDDING_MODEL,
                       emb_updated_at := NOW env (length (trace w))\<rparr>
                else r"
  have tbl: "embeddings_tbl w' = map ?upd (embeddings_tbl w)"
    using query_upsert_Inr(4) [OF q] assms(2) by (simp add: do_update_def)
  have ids: "map emb_id (map ?upd t) = map emb_id t" for t
    by (induction t) auto
  have mids: "map emb_message_id (map ?upd t) = map emb_message_id t" for t
    by (induction t) auto
  have cr: "map emb_created_at (map ?upd t) = map emb_created_at t" for t
    by (induction t) auto
  have others: "filter (\<lambda>r. emb_message_id r \<noteq> Some messageId) (map ?upd t)
      = filter (\<lambda>r. emb_message_id r \<noteq> Some messageId) t" for t
    by (induction t) auto
  from tbl ids mids cr others query_upsert_Inr(1,2) [OF q] show ?thesis
    by (simp only:) simp
qed

text \<open>An upsert for message 11 in \<open>world_two\<close>, where messages 11 and 12 have a row each.\<close>

theorem upsert_overwrite_frame_witness:
  "map emb_id (embeddings_tbl (snd (storeEmbedding env_up 11 [0, 1] world_two))) = [1, 2]
   \<and> map emb_created_at (embeddings_tbl (snd (storeEmbedding env_up 11 [0, 1] world_two))) = [11, 21]
   \<and> map emb_updated_at (embeddings_tbl (snd (storeEmbedding env_up 11 [0, 1] world_two))) = [100, 21]
   \<and> messages_tbl (snd (storeEmbedding env_up 11 [0, 1] world_two)) = messages_tbl world_two"
proof -
  have ex: "\<exists>r\<in>set (embeddings_tbl world_two). emb_message_id r = Some 11"
    by (simp add: world_two_def)
  from upsert_overwrite_frame [OF store_overwrite ex] show ?thesis
    by (simp add: store_overwrite) (simp add: world_two_def)
qed

section \<open>The claim about symmetry and range of cosineSimilarity\<close>

subsection \<open>Rounding to a double\<close>

lemma expo_eq:
  assumes "2 powr of_int k \<le> \<bar>x\<bar>" and "\<bar>x\<bar> < 2 powr of_int (k + 1)"
  shows "expo x = k"
proof -
  have pos: "0 < \<bar>x\<bar>" using assms(1) by (smt (verit) powr_gt_zero)
  have lo: "of_int k \<le> log 2 \<bar>x\<bar>"
    using assms(1) pos by (simp add: le_log_iff)
  have hi: "log 2 \<bar>x\<bar> < of_int k + 1"
    using assms(2) pos by (simp add: log_less_iff)
  show ?thesis unfolding expo_def using lo hi by linarith
qed

lemma round_even_eq: "\<bar>y - of_int m\<bar> < 1 / 2 \<Longrightarrow> round_even y = m"
proof -
  assume a: "\<bar>y - of_int m\<bar> < 1 / 2"
  consider "of_int m \<le> y" | "y < of_int m" by linarith
  then show ?thesis
  proof cases
    case 1
    then have "\<lfloor>y\<rfloor> = m" using a by linarith
    with a 1 show ?thesis by (simp add: round_even_def Let_def)
  next
    case 2
    then have f: "\<lfloor>y\<rfloor> = m - 1" using a by linarith
    have "y - of_int (m - 1) > 1 / 2" using a 2 by simp
    with f show ?thesis by (simp add: round_even_def Let_def)
  qed
qed

text \<open>x lies in the binade of exponent k + 52 and m is the integer nearest to x / 2^k.\<close>

lemma round_double_eq:
  assumes "2 ^ 52 \<le> \<bar>x\<bar> / 2 powr of_int k" and "\<bar>x\<bar> / 2 powr of_int k < 2 ^ 53"
    and "\<bar>x / 2 powr of_int k - of_int m\<bar> < 1 / 2"
  shows "round_double x = of_int m * 2 powr of_int k"
proof -
  define u :: real where "u = 2 powr of_int k"
  have p: "0 < u" by (simp add: u_def)
  have lo: "2 ^ 52 * u \<le> \<bar>x\<bar>"
    using assms(1) p by (simp add: u_def pos_le_divide_eq)
  have hi: "\<bar>x\<bar> < 2 ^ 53 * u"
    using assms(2) p by (simp add: u_def pos_divide_less_eq)
  have a: "2 powr of_int (k + 52) \<le> \<bar>x\<bar>"
  proof -
    have "(2::real) powr of_int (k + 52) = 2 ^ 52 * u"
      by (simp add: powr_add u_def)
    with lo show ?thesis by simp
  qed
  have b: "\<bar>x\<bar> < 2 powr of_int (k + 52 + 1)"
  proof -
    have "(2::real) powr of_int (k + 52 + 1) = 2 ^ 53 * u"
      by (simp add: powr_add u_def)
    with hi show ?thesis by simp
  qed
  have e: "expo x = k + 52" using a b by (rule expo_eq)
  have nz: "x \<noteq> 0" using lo p by auto
  have "round_even (x / 2 powr of_int (expo x - 52)) = m"
    using assms(3) by (simp add: e round_even_eq)
  with nz e show ?thesis by (simp add: round_double_def)
qed

lemma rd_0: "round_double 0 = 0" by (simp add: round_double_def)

lemma rd_1: "round_double 1 = 1"
  using round_double_eq [of 1 "-52" "2 ^ 52"] by (simp add: powr_minus)

lemma rd_2: "round_double 2 = 2"
  using round_double_eq [of 2 "-51" "2 ^ 52"] by (simp add: powr_minus)

lemma rd_3: "round_double 3 = 3"
  using round_double_eq [of 3 "-51" "3 * 2 ^ 51"] by (simp add: powr_minus)

subsection \<open>The vector [1, 1, 1] against itself, in doubles\<close>

lemma sqrt3_bounds:
  "15600926743107923 / 2 ^ 53 < sqrt 3" "sqrt 3 < 15600926743107925 / 2 ^ 53"
proof -
  show "15600926743107923 / 2 ^ 53 < sqrt 3"
    by (rule real_less_rsqrt) (simp add: power2_eq_square)
  show "sqrt 3 < 15600926743107925 / 2 ^ 53"
    by (rule real_less_lsqrt) (simp_all add: power2_eq_square)
qed

lemma rd_sqrt3: "round_double (sqrt 3) = double_sqrt3"
proof -
  have "round_double (sqrt 3) = of_int 7800463371553962 * 2 powr of_int (- 52)"
    using sqrt3_bounds by (intro round_double_eq) (simp_all add: powr_minus abs_if)
  then show ?thesis by (simp add: double_sqrt3_def powr_minus)
qed

lemma rd_square: "round_double (double_sqrt3 * double_sqrt3) = double_sqrt3_squared"
proof -
  have "round_double (double_sqrt3 * double_sqrt3) = of_int 6755399441055743 * 2 powr of_int (- 51)"
    by (intro round_double_eq) (simp_all add: double_sqrt3_def powr_minus)
  then show ?thesis by (simp add: double_sqrt3_squared_def powr_minus)
qed

lemma rd_quotient: "round_double (3 / double_sqrt3_squared) = double_above_one"
proof -
  have "round_double (3 / double_sqrt3_squared) = of_int 4503599627370497 * 2 powr of_int (- 52)"
    by (intro round_double_eq) (simp_all add: double_sqrt3_squared_def powr_minus)
  then show ?thesis by (simp add: double_above_one_def powr_minus)
qed

lemma loop_ones: "cos_loop_fp round_double [1, 1, 1] [1, 1, 1] = (3, 3, 3)"
  by (simp add: cos_loop_fp_def cos_step_fp_def upt_rec rd_1 rd_2 rd_3)

lemma double_sqrt3_nonzero: "double_sqrt3 \<noteq> 0"
  by (simp add: double_sqrt3_def)

lemma cos_ones_double:
  "cosineSimilarity_fp round_double (Some [1, 1, 1]) (Some [1, 1, 1]) = double_above_one"
  by (simp add: cosineSimilarity_fp_def loop_ones rd_sqrt3 double_sqrt3_nonzero rd_square rd_quotient)

lemma above: "1 < double_above_one"
  by (simp add: double_above_one_def)

subsection \<open>Symmetry under any rounding, and the bound in exact arithmetic\<close>

lemma cos_step_fp_swap:
  "cos_step_fp rnd vecB vecA i (d, y, x) =
     (case cos_step_fp rnd vecA vecB i (d, x, y) of (d', x', y') \<Rightarrow> (d', y', x'))"
  by (simp add: cos_step_fp_def mult.commute)

lemma cos_fold_fp_swap:
  "fold (cos_step_fp rnd vecB vecA) [0..<n] (d, y, x) =
     (case fold (cos_step_fp rnd vecA vecB) [0..<n] (d, x, y) of (d', x', y') \<Rightarrow> (d', y', x'))"
proof (induction n)
  case 0
  then show ?case by simp
next
  case (Suc n)
  obtain d' x' y' where f: "fold (cos_step_fp rnd vecA vecB) [0..<n] (d, x, y) = (d', x', y')"
    by (cases "fold (cos_step_fp rnd vecA vecB) [0..<n] (d, x, y)")
  with Suc have g: "fold (cos_step_fp rnd vecB vecA) [0..<n] (d, y, x) = (d', y', x')"
    by simp
  have L: "fold (cos_step_fp rnd vecB vecA) [0..<Suc n] (d, y, x) = cos_step_fp rnd vecB vecA n (d', y', x')"
    using g by simp
  have R: "fold (cos_step_fp rnd vecA vecB) [0..<Suc n] (d, x, y) = cos_step_fp rnd vecA vecB n (d', x', y')"
    using f by simp
  show ?case unfolding L R by (rule cos_step_fp_swap)
qed

lemma cosineSimilarity_fp_sym:
  "cosineSimilarity_fp rnd (Some vecA) (Some vecB) = cosineSimilarity_fp rnd (Some vecB) (Some vecA)"
proof (cases "length vecA = length vecB")
  case False
  then show ?thesis by (auto simp: cosineSimilarity_fp_def)
next
  case True
  obtain d x y where f: "cos_loop_fp rnd vecA vecB = (d, x, y)"
    by (cases "cos_loop_fp rnd vecA vecB")
  then have "cos_loop_fp rnd vecB vecA = (d, y, x)"
    using cos_fold_fp_swap [of rnd vecB vecA "length vecA" 0 0 0] True
    by (simp add: cos_loop_fp_def)
  with f True show ?thesis
    by (auto simp: cosineSimilarity_fp_def Let_def mult.commute)
qed

lemma cos_step_fp_exact: "cos_step_fp (\<lambda>x. x) vecA vecB = cos_step vecA vecB"
  by (rule ext)+ (simp add: cos_step_fp_def cos_step_def)

lemma cosineSimilarity_fp_exact: "cosineSimilarity_fp (\<lambda>x. x) a b = cosineSimilarity a b"
  by (simp add: cosineSimilarity_fp_def cosineSimilarity_def cos_loop_fp_def cos_loop_def
      cos_step_fp_exact split: option.splits)

lemma two_dim_cauchy: "(p * q + r * s)\<^sup>2 \<le> (p\<^sup>2 + r\<^sup>2) * (q\<^sup>2 + s\<^sup>2)" for p q r s :: real
proof -
  have "(p\<^sup>2 + r\<^sup>2) * (q\<^sup>2 + s\<^sup>2) - (p * q + r * s)\<^sup>2 = (p * s - r * q)\<^sup>2"
    by (simp add: power2_eq_square algebra_simps)
  moreover have "0 \<le> (p * s - r * q)\<^sup>2" by simp
  ultimately show ?thesis by linarith
qed

lemma cauchy_schwarz_sum:
  "\<bar>\<Sum>i<n. f i * g i\<bar> \<le> sqrt (\<Sum>i<n. f i * f i) * sqrt (\<Sum>i<(n::nat). g i * (g i :: real))"
proof (induction n)
  case 0
  then show ?case by simp
next
  case (Suc n)
  let ?D = "\<Sum>i<n. f i * g i" and ?A = "\<Sum>i<n. f i * f i" and ?B = "\<Sum>i<n. g i * g i"
  have A: "0 \<le> ?A" and B: "0 \<le> ?B" by (simp_all add: sum_nonneg)
  have "\<bar>?D + f n * g n\<bar> \<le> \<bar>?D\<bar> + \<bar>f n\<bar> * \<bar>g n\<bar>"
    by (simp add: abs_mult [symmetric] abs_triangle_ineq)
  also have "\<dots> \<le> sqrt ?A * sqrt ?B + \<bar>f n\<bar> * \<bar>g n\<bar>"
    using Suc by simp
  also have "\<dots> \<le> sqrt ((?A + f n * f n) * (?B + g n * g n))"
  proof (rule real_le_rsqrt)
    have "(sqrt ?A * sqrt ?B + \<bar>f n\<bar> * \<bar>g n\<bar>)\<^sup>2
        \<le> ((sqrt ?A)\<^sup>2 + \<bar>f n\<bar>\<^sup>2) * ((sqrt ?B)\<^sup>2 + \<bar>g n\<bar>\<^sup>2)"
      by (rule two_dim_cauchy)
    also have "\<dots> = (?A + f n * f n) * (?B + g n * g n)"
      using A B by (simp add: power2_eq_square)
    finally show "(sqrt ?A * sqrt ?B + \<bar>f n\<bar> * \<bar>g n\<bar>)\<^sup>2 \<le> (?A + f n * f n) * (?B + g n * g n)" .
  qed
  also have "\<dots> = sqrt (?A + f n * f n) * sqrt (?B + g n * g n)"
    by (rule real_sqrt_mult)
  finally show ?case by simp
qed

lemma quotient_bound: "0 < c \<Longrightarrow> \<bar>d\<bar> \<le> c \<Longrightarrow> \<bar>d / c\<bar> \<le> 1" for c d :: real
  by (simp add: abs_divide pos_divide_le_eq)

lemma cosineSimilarity_bound:
  assumes "length vecA = length vecB"
  shows "\<bar>cosineSimilarity (Some vecA) (Some vecB)\<bar> \<le> 1"
proof (cases "magnitude vecA = 0 \<or> magnitude vecB = 0")
  case True
  with assms show ?thesis by (simp add: cosineSimilarity_eq)
next
  case False
  have nn: "0 \<le> (\<Sum>x\<leftarrow>v. x * x)" for v :: "real list"
    by (rule sum_list_nonneg) auto
  have ma: "0 \<le> magnitude vecA" and mb: "0 \<le> magnitude vecB"
    by (simp_all add: magnitude_def nn)
  with False have pos: "0 < magnitude vecA * magnitude vecB" by simp
  have "\<bar>\<Sum>i<length vecA. vecA ! i * vecB ! i\<bar> \<le> magnitude vecA * magnitude vecB"
    using cauchy_schwarz_sum [of "\<lambda>i. vecA ! i" "\<lambda>i. vecB ! i" "length vecA"] assms
    by (simp add: magnitude_def sum_list_nth_sq)
  with pos have "\<bar>(\<Sum>i<length vecA. vecA ! i * vecB ! i) / (magnitude vecA * magnitude vecB)\<bar> \<le> 1"
    by (rule quotient_bound)
  with False assms show ?thesis by (simp add: cosineSimilarity_eq)
qed

text \<open>
  C7, amended. For all vectors a and b of equal positive length,
  \<open>cosineSimilarity(a, b)\<close> and \<open>cosineSimilarity(b, a)\<close> are the same number,
  whatever the rounding of the arithmetic (so in doubles, as long as no operation
  overflows, as well as in exact arithmetic); and in exact arithmetic the result lies in
  the interval from -1 to 1. In doubles the bound is not promised.
\<close>

theorem cosineSimilarity_symmetric_exact_bound:
  assumes "length a = length b" and "0 < length a"
  shows "cosineSimilarity_fp rnd (Some a) (Some b) = cosineSimilarity_fp rnd (Some b) (Some a)
    \<and> cosineSimilarity_fp (\<lambda>x. x) (Some a) (Some b) = cosineSimilarity (Some a) (Some b)
    \<and> cosineSimilarity (Some a) (Some b) = cosineSimilarity (Some b) (Some a)
    \<and> - 1 \<le> cosineSimilarity (Some a) (Some b) \<and> cosineSimilarity (Some a) (Some b) \<le> 1"
proof -
  have s: "cosineSimilarity_fp rnd (Some a) (Some b) = cosineSimilarity_fp rnd (Some b) (Some a)"
    by (rule cosineSimilarity_fp_sym)
  have e: "cosineSimilarity_fp (\<lambda>x. x) (Some a) (Some b) = cosineSimilarity (Some a) (Some b)"
    by (rule cosineSimilarity_fp_exact)
  have t: "cosineSimilarity (Some a) (Some b) = cosineSimilarity (Some b) (Some a)"
    using cosineSimilarity_fp_sym [of "\<lambda>x. x" a b] by (simp add: cosineSimilarity_fp_exact)
  have "\<bar>cosineSimilarity (Some a) (Some b)\<bar> \<le> 1"
    using assms(1) by (rule cosineSimilarity_bound)
  then have "- 1 \<le> cosineSimilarity (Some a) (Some b) \<and> cosineSimilarity (Some a) (Some b) \<le> 1"
    by linarith
  with s e t show ?thesis by blast
qed

text \<open>The vectors \<open>[1, 0]\<close> and \<open>[3, 4]\<close>, of cosine 3/5.\<close>

theorem cosineSimilarity_symmetric_exact_bound_witness:
  "length [1, 0 :: real] = length [3, 4 :: real] \<and> 0 < length [1, 0 :: real]
   \<and> cosineSimilarity_fp round_double (Some [1, 0]) (Some [3, 4])
       = cosineSimilarity_fp round_double (Some [3, 4]) (Some [1, 0])
   \<and> cosineSimilarity (Some [3, 4]) (Some [1, 0]) = 3 / 5
   \<and> - 1 \<le> cosineSimilarity (Some [1, 0]) (Some [3, 4])
   \<and> cosineSimilarity (Some [1, 0]) (Some [3, 4]) \<le> 1"
proof -
  have l: "length [1, 0 :: real] = length [3, 4 :: real]" and p: "0 < length [1, 0 :: real]"
    by simp_all
  from cosineSimilarity_symmetric_exact_bound [OF l p, of round_double] l p cos_10_34
  show ?thesis by simp
qed

text \<open>
  C7, as stated, fails in the arithmetic the code runs on: for \<open>[1, 1, 1]\<close> against
  itself the three sums are 3, \<open>Math.sqrt(3)\<close> is 1.7320508075688772, its square
  rounds to 2.9999999999999996, and 3 divided by that rounds to 1.0000000000000002,
  which is \<open>1 + 2^-52\<close> and above 1.
\<close>

theorem cosineSimilarity_double_above_one_counterexample:
  "length [1, 1, 1 :: real] = length [1, 1, 1 :: real] \<and> 0 < length [1, 1, 1 :: real]
   \<and> cosineSimilarity_fp round_double (Some [1, 1, 1]) (Some [1, 1, 1]) = 1 + 1 / 2 ^ 52
   \<and> \<not> cosineSimilarity_fp round_double (Some [1, 1, 1]) (Some [1, 1, 1]) \<le> 1"
  by (simp add: cos_ones_double double_above_one_def)

end
